theory Spec2Isabelle
  imports Complex_Main "HOL-Library.AList" "HOL-Library.Word"
begin

section \<open>Doubles and three-dimensional vectors\<close>

text \<open>
  The extent globals (\<open>state::lengthScale\<close>, \<open>state::boundingBox\<close>, \<open>state::center\<close>) and
  the values a structure reports are C++ doubles: IEEE 754 binary64. A double is NaN, one
  of the two infinities, or \<open>Fin x\<close> for a real \<open>x\<close>; the finite doubles are the \<open>Fin x\<close> that
  rounding leaves unchanged. The two signed zeros are one value. Comparisons with NaN are
  false.
\<close>

datatype double = NaN | NegInf | Fin real | PosInf

text \<open>
  Rounding to nearest, ties to even, the default rounding mode: the exact result of an
  operation is rounded to a multiple of the unit in the last place of its binade (53
  significant bits, the exponent not below that of the subnormals); a result whose
  rounding reaches \<open>2 ^ 1024\<close> overflows to the infinity of its sign. Every arithmetic
  operation rounds once.
\<close>

definition roundHalfEven :: "real \<Rightarrow> int" where
  "roundHalfEven q =
     (let r = \<lfloor>q\<rfloor>; d = q - of_int r
      in if d < 1/2 then r else if 1/2 < d then r + 1 else if even r then r else r + 1)"

definition dround :: "real \<Rightarrow> double" where
  "dround x =
     (if x = 0 then Fin 0
      else
        (let e = max \<lfloor>log 2 \<bar>x\<bar>\<rfloor> (- 1022);
             ulp = 2 powr of_int (e - 52);
             y = of_int (roundHalfEven (x / ulp)) * ulp
         in if 2 powr 1024 \<le> \<bar>y\<bar> then (if 0 < x then PosInf else NegInf) else Fin y))"

fun dless :: "double \<Rightarrow> double \<Rightarrow> bool" where
  "dless (Fin a) (Fin b) = (a < b)"
| "dless NegInf (Fin b) = True"
| "dless NegInf PosInf = True"
| "dless (Fin a) PosInf = True"
| "dless _ _ = False"

fun dneg :: "double \<Rightarrow> double" where
  "dneg NaN = NaN"
| "dneg NegInf = PosInf"
| "dneg (Fin a) = Fin (- a)"
| "dneg PosInf = NegInf"

fun dadd :: "double \<Rightarrow> double \<Rightarrow> double" where
  "dadd NaN _ = NaN"
| "dadd _ NaN = NaN"
| "dadd (Fin a) (Fin b) = dround (a + b)"
| "dadd PosInf NegInf = NaN"
| "dadd NegInf PosInf = NaN"
| "dadd PosInf _ = PosInf"
| "dadd _ PosInf = PosInf"
| "dadd NegInf _ = NegInf"
| "dadd _ NegInf = NegInf"

definition dsub :: "double \<Rightarrow> double \<Rightarrow> double" where
  "dsub a b = dadd a (dneg b)"

definition inf_times :: "double \<Rightarrow> real \<Rightarrow> double" where
  "inf_times i a = (if a = 0 then NaN else if 0 < a then i else dneg i)"

fun dmul :: "double \<Rightarrow> double \<Rightarrow> double" where
  "dmul NaN _ = NaN"
| "dmul _ NaN = NaN"
| "dmul (Fin a) (Fin b) = dround (a * b)"
| "dmul (Fin a) PosInf = inf_times PosInf a"
| "dmul (Fin a) NegInf = inf_times NegInf a"
| "dmul PosInf (Fin b) = inf_times PosInf b"
| "dmul NegInf (Fin b) = inf_times NegInf b"
| "dmul PosInf PosInf = PosInf"
| "dmul NegInf NegInf = PosInf"
| "dmul PosInf NegInf = NegInf"
| "dmul NegInf PosInf = NegInf"

fun dsqrt :: "double \<Rightarrow> double" where
  "dsqrt (Fin a) = (if a < 0 then NaN else dround (sqrt a))"
| "dsqrt PosInf = PosInf"
| "dsqrt _ = NaN"

fun disfinite :: "double \<Rightarrow> bool" where
  "disfinite (Fin a) = True"
| "disfinite _ = False"

text \<open>\<open>std::max(a, b)\<close> is \<open>(a < b) ? b : a\<close>.\<close>

definition std_max :: "double \<Rightarrow> double \<Rightarrow> double" where
  "std_max a b = (if dless a b then b else a)"

text \<open>\<open>fmin\<close> and \<open>fmax\<close>: when one operand is NaN the other is returned.\<close>

fun fmin :: "double \<Rightarrow> double \<Rightarrow> double" where
  "fmin NaN b = b"
| "fmin a NaN = a"
| "fmin a b = (if dless b a then b else a)"

fun fmax :: "double \<Rightarrow> double \<Rightarrow> double" where
  "fmax NaN b = b"
| "fmax a NaN = a"
| "fmax a b = (if dless a b then b else a)"

datatype Vector3 = Vec3 (vx: double) (vy: double) (vz: double)

text \<open>
  The vector operations of the geometry library that \<open>updateStructureExtents\<close> calls:
  \<open>Vector3 * double\<close>, \<open>double * Vector3\<close>, unary minus, \<open>+\<close>, \<open>-\<close>, \<open>norm\<close>,
  \<open>isFinite\<close>, \<open>componentwiseMin\<close> and \<open>componentwiseMax\<close>.
\<close>

definition vscale :: "Vector3 \<Rightarrow> double \<Rightarrow> Vector3" where
  "vscale v a = Vec3 (dmul (vx v) a) (dmul (vy v) a) (dmul (vz v) a)"

definition sscale :: "double \<Rightarrow> Vector3 \<Rightarrow> Vector3" where
  "sscale a v = Vec3 (dmul a (vx v)) (dmul a (vy v)) (dmul a (vz v))"

definition vneg :: "Vector3 \<Rightarrow> Vector3" where
  "vneg v = Vec3 (dneg (vx v)) (dneg (vy v)) (dneg (vz v))"

definition vadd :: "Vector3 \<Rightarrow> Vector3 \<Rightarrow> Vector3" where
  "vadd u v = Vec3 (dadd (vx u) (vx v)) (dadd (vy u) (vy v)) (dadd (vz u) (vz v))"

definition vsub :: "Vector3 \<Rightarrow> Vector3 \<Rightarrow> Vector3" where
  "vsub u v = Vec3 (dsub (vx u) (vx v)) (dsub (vy u) (vy v)) (dsub (vz u) (vz v))"

definition norm3 :: "Vector3 \<Rightarrow> double" where
  "norm3 v = dsqrt (dadd (dadd (dmul (vx v) (vx v)) (dmul (vy v) (vy v))) (dmul (vz v) (vz v)))"

definition isFinite :: "Vector3 \<Rightarrow> bool" where
  "isFinite v = (disfinite (vx v) \<and> disfinite (vy v) \<and> disfinite (vz v))"

definition componentwiseMin :: "Vector3 \<Rightarrow> Vector3 \<Rightarrow> Vector3" where
  "componentwiseMin u v = Vec3 (fmin (vx u) (vx v)) (fmin (vy u) (vy v)) (fmin (vz u) (vz v))"

definition componentwiseMax :: "Vector3 \<Rightarrow> Vector3 \<Rightarrow> Vector3" where
  "componentwiseMax u v = Vec3 (fmax (vx u) (vx v)) (fmax (vy u) (vy v)) (fmax (vz u) (vz v))"

definition ones :: Vector3 where
  "ones = Vec3 (Fin 1) (Fin 1) (Fin 1)"

section \<open>The global state\<close>

datatype StructureType = PointCloud | SurfaceMesh | CameraView | RaySet

type_synonym addr = nat

text \<open>
  A structure object as the registry sees it: its \<open>type\<close> and \<open>name\<close> members and what its
  \<open>lengthScale()\<close> and \<open>boundingBox()\<close> methods return. The classes themselves
  (PointCloud, SurfaceMesh, CameraView, RaySet) are collaborators; the data a register
  call passes to the constructor is represented by what the constructed object reports.
\<close>

record Structure =
  stype :: StructureType
  sname :: string
  slengthScale :: double
  sboundingBox :: "Vector3 \<times> Vector3"

record Payload =
  payloadLengthScale :: double
  payloadBoundingBox :: "Vector3 \<times> Vector3"

text \<open>
  The pick selection of the \<open>pick\<close> namespace (\<open>pick::haveSelection\<close> and the element
  \<open>pick::getCurrentPickElement\<close> returns): no selection, or a structure pointer with a
  local index.
\<close>

datatype Selection = NoSelection | Selected addr nat

datatype exception = LogicError string | RuntimeError string

datatype glCall =
    GlDeleteRenderbuffers
  | GlRenderbufferStorageDepth int int
  | GlRenderbufferStorageColor int int

text \<open>
  A \<open>std::map\<close> is an association list with distinct keys: \<open>map_of\<close> is \<open>find\<close>,
  \<open>AList.update\<close> is assignment through \<open>operator[]\<close>, \<open>AList.delete\<close> is \<open>erase\<close>.
  The list keeps insertion order where \<open>std::map\<close> iterates in key order; the loops over
  the maps modelled here (deleting every element, folding maxima and minima) do not
  depend on the order.

  The heap holds the structures allocated with \<open>new\<close> and not yet deleted; \<open>nextAddr\<close> is
  the address the next \<open>new\<close> returns. Reading or deleting through a pointer that is not
  in the heap is undefined behaviour in the source: the model records it in
  \<open>undefinedBehaviour\<close>.
\<close>

record State =
  initialized :: bool
  lengthScale :: double
  boundingBox :: "Vector3 \<times> Vector3"
  center :: Vector3
  structureCategories :: "(StructureType \<times> (string \<times> addr) list) list"
  pointClouds :: "(string \<times> addr) list"
  surfaceMeshes :: "(string \<times> addr) list"
  cameraViews :: "(string \<times> addr) list"
  raySets :: "(string \<times> addr) list"
  verbosity :: int
  printPrefix :: string
  exceptionOnError :: bool
  heap :: "addr \<rightharpoonup> Structure"
  nextAddr :: addr
  undefinedBehaviour :: bool
  stdout :: "string list"
  selection :: Selection
  bufferWidth :: int
  bufferHeight :: int
  currPickBufferWidth :: "32 word"
  currPickBufferHeight :: "32 word"
  glCalls :: "glCall list"

text \<open>The globals as their initialisers leave them, before \<open>init\<close>.\<close>

definition initialState :: State where
  "initialState =
     \<lparr> initialized = False,
       lengthScale = Fin 1,
       boundingBox = (Vec3 (Fin 0) (Fin 0) (Fin 0), Vec3 (Fin 0) (Fin 0) (Fin 0)),
       center = Vec3 (Fin 0) (Fin 0) (Fin 0),
       structureCategories = [(PointCloud, []), (SurfaceMesh, []), (CameraView, []), (RaySet, [])],
       pointClouds = [],
       surfaceMeshes = [],
       cameraViews = [],
       raySets = [],
       verbosity = 2,
       printPrefix = ''Polyscope: '',
       exceptionOnError = True,
       heap = Map.empty,
       nextAddr = 0,
       undefinedBehaviour = False,
       stdout = [],
       selection = NoSelection,
       bufferWidth = 0,
       bufferHeight = 0,
       currPickBufferWidth = 0,
       currPickBufferHeight = 0,
       glCalls = [] \<rparr>"

section \<open>The error channel\<close>

text \<open>
  A function that can throw returns the exception or its result, together with the
  globals as they are at that moment: an exception leaves them as the throwing statement
  found them.
\<close>

definition error :: "string \<Rightarrow> State \<Rightarrow> (exception + unit) \<times> State" where
  "error message s =
     (if exceptionOnError s then (Inl (LogicError (printPrefix s @ message)), s)
      else (Inr (), s\<lparr>stdout := stdout s @ [printPrefix s @ message]\<rparr>))"

section \<open>The pick selection\<close>

text \<open>
  Modelled from the spec: the functions \<open>pick::resetPick\<close>,
  \<open>pick::clearPickIfStructureSelected\<close> and \<open>pick::setCurrentPickElement\<close> are declared in
  \<open>polyscope/pick.h\<close>, which is not among the sources. The spec (4.4) gives them:
  \<open>reset()\<close> unconditionally transitions to NoSelection; \<open>clearIfStructureSelected\<close>
  transitions to NoSelection if the state is Selected and its structure pointer equals
  the argument; a nonzero decoded index transitions to Selected with the structure that
  owns the index and the local index within it, where the map from a global index to
  (structure, local index) is a collaborator's and is the parameter \<open>owner\<close> here. The
  double-click flag is forwarded and has no effect on the selection.
\<close>

definition resetPick :: "State \<Rightarrow> State" where
  "resetPick s = s\<lparr>selection := NoSelection\<rparr>"

definition clearPickIfStructureSelected :: "addr \<Rightarrow> State \<Rightarrow> State" where
  "clearPickIfStructureSelected p s =
     (case selection s of
        NoSelection \<Rightarrow> s
      | Selected q i \<Rightarrow> if q = p then s\<lparr>selection := NoSelection\<rparr> else s)"

definition setCurrentPickElement :: "(nat \<Rightarrow> addr \<times> nat) \<Rightarrow> nat \<Rightarrow> bool \<Rightarrow> State \<Rightarrow> State" where
  "setCurrentPickElement owner ind wasDoubleClick s =
     s\<lparr>selection := Selected (fst (owner ind)) (snd (owner ind))\<rparr>"

section \<open>The pick colour codec\<close>

text \<open>
  Modelled from the spec: \<open>pick::indToVec\<close> and \<open>pick::vecToInd\<close> (the spec's \<open>encode\<close>
  and \<open>decode\<close>) are declared in \<open>polyscope/pick.h\<close>, which is not among the sources. The
  spec (3, 4.3) gives a fixed base/radix scheme over the three channels, each channel
  holding one digit, conceptually integral. The radix \<open>B\<close> is a parameter; the
  representable indices are those below \<open>B ^ 3\<close>.
\<close>

definition indToVec :: "nat \<Rightarrow> nat \<Rightarrow> nat \<times> nat \<times> nat" where
  "indToVec B ind = (ind mod B, (ind div B) mod B, (ind div (B * B)) mod B)"

definition vecToInd :: "nat \<Rightarrow> nat \<times> nat \<times> nat \<Rightarrow> nat" where
  "vecToInd B v = (case v of (r, g, b) \<Rightarrow> r + B * g + B * B * b)"

definition representable :: "nat \<Rightarrow> nat \<Rightarrow> bool" where
  "representable B ind = (ind < B ^ 3)"

section \<open>The extent\<close>

definition deq :: "double \<Rightarrow> double \<Rightarrow> bool" where
  "deq a b = (a \<noteq> NaN \<and> a = b)"

text \<open>
  The loop of \<open>updateStructureExtents\<close> over the structures of every category, in the
  order the category map lists them. \<open>None\<close>: a pointer of the map is not in the heap.
\<close>

fun extentLoop ::
  "(addr \<rightharpoonup> Structure) \<Rightarrow> addr list \<Rightarrow> double \<times> Vector3 \<times> Vector3 \<Rightarrow> (double \<times> Vector3 \<times> Vector3) option" where
  "extentLoop h [] acc = Some acc"
| "extentLoop h (p # ps) (ls, minBbox, maxBbox) =
     (case h p of
        None \<Rightarrow> None
      | Some x \<Rightarrow>
          extentLoop h ps
            (std_max ls (slengthScale x),
             componentwiseMin minBbox (fst (sboundingBox x)),
             componentwiseMax maxBbox (snd (sboundingBox x))))"

text \<open>
  The values the three running variables start with: \<open>state::lengthScale = 0.0\<close>,
  \<open>minBbox = Vector3{1, 1, 1} * infinity\<close> and \<open>maxBbox = -Vector3{1, 1, 1} * infinity\<close>.
\<close>

definition initialExtent :: "double \<times> Vector3 \<times> Vector3" where
  "initialExtent = (Fin 0, vscale ones PosInf, vscale (vneg ones) PosInf)"

definition allStructures :: "State \<Rightarrow> addr list" where
  "allStructures s = map snd (concat (map snd (structureCategories s)))"

definition updateStructureExtents :: "State \<Rightarrow> State" where
  "updateStructureExtents s =
     (case extentLoop (heap s) (allStructures s) initialExtent of
        None \<Rightarrow> s\<lparr>undefinedBehaviour := True\<rparr>
      | Some (ls, minBbox0, maxBbox0) \<Rightarrow>
          (let (minBbox, maxBbox) =
                 (if \<not> isFinite minBbox0 \<or> \<not> isFinite maxBbox0
                  then (vneg ones, ones) else (minBbox0, maxBbox0));
               ls' = (if deq ls (Fin 0) then norm3 (vsub maxBbox minBbox) else ls)
           in s\<lparr>lengthScale := ls',
                boundingBox := (minBbox, maxBbox),
                center := sscale (Fin (1/2)) (vadd minBbox maxBbox)\<rparr>))"

section \<open>The registry\<close>

fun typedMap :: "StructureType \<Rightarrow> State \<Rightarrow> (string \<times> addr) list" where
  "typedMap PointCloud s = pointClouds s"
| "typedMap SurfaceMesh s = surfaceMeshes s"
| "typedMap CameraView s = cameraViews s"
| "typedMap RaySet s = raySets s"

fun typedMap_update ::
  "StructureType \<Rightarrow> ((string \<times> addr) list \<Rightarrow> (string \<times> addr) list) \<Rightarrow> State \<Rightarrow> State" where
  "typedMap_update PointCloud f s = s\<lparr>pointClouds := f (pointClouds s)\<rparr>"
| "typedMap_update SurfaceMesh f s = s\<lparr>surfaceMeshes := f (surfaceMeshes s)\<rparr>"
| "typedMap_update CameraView f s = s\<lparr>cameraViews := f (cameraViews s)\<rparr>"
| "typedMap_update RaySet f s = s\<lparr>raySets := f (raySets s)\<rparr>"

text \<open>
  \<open>state::structureCategories[ty]\<close>: \<open>operator[]\<close> finds the inner map of the category, or
  inserts an empty one when the category is not a key (after \<open>clear()\<close>).
\<close>

definition categoryMap :: "StructureType \<Rightarrow> State \<Rightarrow> (string \<times> addr) list" where
  "categoryMap ty s = (case map_of (structureCategories s) ty of None \<Rightarrow> [] | Some m \<Rightarrow> m)"

definition categoryMap_update ::
  "StructureType \<Rightarrow> ((string \<times> addr) list \<Rightarrow> (string \<times> addr) list) \<Rightarrow> State \<Rightarrow> State" where
  "categoryMap_update ty f s =
     s\<lparr>structureCategories := AList.update ty (f (categoryMap ty s)) (structureCategories s)\<rparr>"

definition newStructure :: "Structure \<Rightarrow> State \<Rightarrow> addr \<times> State" where
  "newStructure x s =
     (nextAddr s, s\<lparr>heap := (heap s)(nextAddr s \<mapsto> x), nextAddr := Suc (nextAddr s)\<rparr>)"

definition deleteStructure :: "addr \<Rightarrow> State \<Rightarrow> State" where
  "deleteStructure p s =
     (if heap s p = None then s\<lparr>undefinedBehaviour := True\<rparr>
      else s\<lparr>heap := (heap s)(p := None)\<rparr>)"

text \<open>
  The loop of \<open>checkStructureNameInUse\<close> over the categories: at the first category that
  holds the name, the error is signalled when \<open>throwError\<close> is set, and if \<open>error\<close>
  returns (or was not called) the result is \<open>true\<close>.
\<close>

fun checkLoop ::
  "(StructureType \<times> (string \<times> addr) list) list \<Rightarrow> string \<Rightarrow> bool \<Rightarrow> State \<Rightarrow> (exception + bool) \<times> State" where
  "checkLoop [] name throwError s = (Inr False, s)"
| "checkLoop (cat # cats) name throwError s =
     (if map_of (snd cat) name \<noteq> None then
        (if throwError then
           (case error (''Structure name '' @ name @ '' is already in use.'') s of
              (Inl e, s') \<Rightarrow> (Inl e, s')
            | (Inr u, s') \<Rightarrow> (Inr True, s'))
         else (Inr True, s))
      else checkLoop cats name throwError s)"

definition checkStructureNameInUse :: "string \<Rightarrow> bool \<Rightarrow> State \<Rightarrow> (exception + bool) \<times> State" where
  "checkStructureNameInUse name throwError s = checkLoop (structureCategories s) name throwError s"

text \<open>
  Statements run in sequence; \<open>traceSteps\<close> lists the state after each of them, the states
  an observer between two statements can see.
\<close>

definition runSteps :: "(State \<Rightarrow> State) list \<Rightarrow> State \<Rightarrow> State" where
  "runSteps fs s = fold (\<lambda>f. f) fs s"

fun traceSteps :: "(State \<Rightarrow> State) list \<Rightarrow> State \<Rightarrow> State list" where
  "traceSteps [] s = []"
| "traceSteps (f # fs) s = f s # traceSteps fs (f s)"

text \<open>
  \<open>removeStructure\<close> tries the four typed maps in the order point clouds, surface meshes,
  camera views, ray sets; \<open>findTyped\<close> is the first whose \<open>find\<close> succeeds, with the pointer
  found. The block of that category then runs the five statements of \<open>removeSteps\<close>.
\<close>

definition findTyped :: "string \<Rightarrow> State \<Rightarrow> (StructureType \<times> addr) option" where
  "findTyped name s =
     (case map_of (pointClouds s) name of
        Some p \<Rightarrow> Some (PointCloud, p)
      | None \<Rightarrow>
     (case map_of (surfaceMeshes s) name of
        Some p \<Rightarrow> Some (SurfaceMesh, p)
      | None \<Rightarrow>
     (case map_of (cameraViews s) name of
        Some p \<Rightarrow> Some (CameraView, p)
      | None \<Rightarrow>
     (case map_of (raySets s) name of
        Some p \<Rightarrow> Some (RaySet, p)
      | None \<Rightarrow> None))))"

definition removeSteps :: "StructureType \<Rightarrow> string \<Rightarrow> addr \<Rightarrow> (State \<Rightarrow> State) list" where
  "removeSteps ty name p =
     [clearPickIfStructureSelected p,
      deleteStructure p,
      typedMap_update ty (AList.delete name),
      categoryMap_update ty (AList.delete name),
      updateStructureExtents]"

definition removeStructure :: "string \<Rightarrow> State \<Rightarrow> (exception + unit) \<times> State" where
  "removeStructure name s =
     (case findTyped name s of
        Some (ty, p) \<Rightarrow> (Inr (), runSteps (removeSteps ty name p) s)
      | None \<Rightarrow> error (''No structure named: '' @ name @ '' to remove.'') s)"

definition deleteAll :: "(string \<times> addr) list \<Rightarrow> State \<Rightarrow> State" where
  "deleteAll m s = fold (\<lambda>x. deleteStructure (snd x)) m s"

definition removeAllSteps :: "(State \<Rightarrow> State) list" where
  "removeAllSteps =
     [\<lambda>s. deleteAll (pointClouds s) s,
      \<lambda>s. deleteAll (surfaceMeshes s) s,
      \<lambda>s. s\<lparr>pointClouds := []\<rparr>,
      \<lambda>s. s\<lparr>surfaceMeshes := []\<rparr>,
      \<lambda>s. s\<lparr>structureCategories := []\<rparr>,
      updateStructureExtents,
      resetPick]"

definition removeAllStructures :: "State \<Rightarrow> State" where
  "removeAllStructures s = runSteps removeAllSteps s"

text \<open>
  The four register functions differ only in the category, the typed map and the class
  constructed; \<open>registerStructure\<close> is their common body.
\<close>

definition insertSteps :: "StructureType \<Rightarrow> string \<Rightarrow> Payload \<Rightarrow> State \<Rightarrow> State" where
  "insertSteps ty name payload s =
     (let (p, s1) = newStructure \<lparr>stype = ty, sname = name,
                                   slengthScale = payloadLengthScale payload,
                                   sboundingBox = payloadBoundingBox payload\<rparr> s;
          s2 = typedMap_update ty (AList.update name p) s1;
          s3 = (case map_of (typedMap ty s2) name of
                  Some q \<Rightarrow> categoryMap_update ty (AList.update name q) s2
                | None \<Rightarrow> s2)
      in updateStructureExtents s3)"

definition registerStructure ::
  "StructureType \<Rightarrow> string \<Rightarrow> Payload \<Rightarrow> bool \<Rightarrow> State \<Rightarrow> (exception + unit) \<times> State" where
  "registerStructure ty name payload replaceIfPresent s =
     (case checkStructureNameInUse name (\<not> replaceIfPresent) s of
        (Inl e, s1) \<Rightarrow> (Inl e, s1)
      | (Inr inUse, s1) \<Rightarrow>
          (case (if inUse then removeStructure name s1 else (Inr (), s1)) of
             (Inl e, s2) \<Rightarrow> (Inl e, s2)
           | (Inr u, s2) \<Rightarrow> (Inr (), insertSteps ty name payload s2)))"

definition registerPointCloud :: "string \<Rightarrow> Payload \<Rightarrow> bool \<Rightarrow> State \<Rightarrow> (exception + unit) \<times> State" where
  "registerPointCloud name points replaceIfPresent = registerStructure PointCloud name points replaceIfPresent"

definition registerSurfaceMesh :: "string \<Rightarrow> Payload \<Rightarrow> bool \<Rightarrow> State \<Rightarrow> (exception + unit) \<times> State" where
  "registerSurfaceMesh name geom replaceIfPresent = registerStructure SurfaceMesh name geom replaceIfPresent"

definition registerCameraView :: "string \<Rightarrow> Payload \<Rightarrow> bool \<Rightarrow> State \<Rightarrow> (exception + unit) \<times> State" where
  "registerCameraView name p replaceIfPresent = registerStructure CameraView name p replaceIfPresent"

definition registerRaySet :: "string \<Rightarrow> Payload \<Rightarrow> bool \<Rightarrow> State \<Rightarrow> (exception + unit) \<times> State" where
  "registerRaySet name r replaceIfPresent = registerStructure RaySet name r replaceIfPresent"

fun typeNoun :: "StructureType \<Rightarrow> string" where
  "typeNoun PointCloud = ''point cloud''"
| "typeNoun SurfaceMesh = ''surface mesh''"
| "typeNoun CameraView = ''camera view''"
| "typeNoun RaySet = ''ray set''"

text \<open>
  The four getters (\<open>getPointCloud\<close>, \<open>getSurfaceMesh\<close>, \<open>getCameraView\<close>, \<open>getRaySet\<close>):
  \<open>None\<close> is the null pointer returned when \<open>error\<close> returns.
\<close>

definition getStructure :: "StructureType \<Rightarrow> string \<Rightarrow> State \<Rightarrow> (exception + addr option) \<times> State" where
  "getStructure ty name s =
     (if map_of (typedMap ty s) name = None then
        (case error (''No '' @ typeNoun ty @ '' with name '' @ name @ '' registered'') s of
           (Inl e, s') \<Rightarrow> (Inl e, s')
         | (Inr u, s') \<Rightarrow> (Inr None, s'))
      else (Inr (map_of (typedMap ty s) name), s))"

section \<open>Initialisation and the pick buffer\<close>

text \<open>
  What the windowing and graphics libraries answer during \<open>init\<close>: whether \<open>glfwInit\<close> and
  \<open>gladLoadGL\<close> succeed, the version string, and the framebuffer size.
\<close>

record Environment =
  glfwInitOk :: bool
  gladLoadGLOk :: bool
  glVersion :: string
  framebufferWidth :: int
  framebufferHeight :: int

text \<open>
  \<open>view::bufferWidth\<close> and \<open>view::bufferHeight\<close> are \<open>int\<close>, the cached sizes are \<open>GLuint\<close>:
  the assignment converts with \<open>word_of_int\<close>, the comparison casts back with \<open>sint\<close>.
\<close>

definition allocatePickRenderbuffers :: "State \<Rightarrow> State" where
  "allocatePickRenderbuffers s =
     s\<lparr>glCalls := glCalls s @
          [GlRenderbufferStorageDepth (bufferWidth s) (bufferHeight s),
           GlRenderbufferStorageColor (bufferWidth s) (bufferHeight s)],
       currPickBufferWidth := word_of_int (bufferWidth s),
       currPickBufferHeight := word_of_int (bufferHeight s)\<rparr>"

definition initPickBuffer :: "State \<Rightarrow> State" where
  "initPickBuffer s = allocatePickRenderbuffers s"

definition init :: "Environment \<Rightarrow> State \<Rightarrow> (exception + unit) \<times> State" where
  "init env s =
     (if initialized s then
        (Inl (LogicError (printPrefix s @ ''Initialize called twice'')), s)
      else if \<not> glfwInitOk env then
        (Inl (RuntimeError (printPrefix s @ ''ERROR: Failed to initialize glfw'')), s)
      else if \<not> gladLoadGLOk env then
        (Inl (RuntimeError (printPrefix s @ ''ERROR: Failed to load openGL using GLAD'')), s)
      else
        (let s1 = (if verbosity s > 0
                   then s\<lparr>stdout := stdout s @ [printPrefix s @ ''Loaded openGL version: '' @ glVersion env]\<rparr>
                   else s);
             s2 = s1\<lparr>bufferWidth := framebufferWidth env, bufferHeight := framebufferHeight env\<rparr>;
             s3 = initPickBuffer s2
         in (Inr (), s3\<lparr>initialized := True\<rparr>)))"

text \<open>
  \<open>evaluatePickQuery\<close>: the pick buffer is reallocated when the cached size differs from
  the viewport; the render pass and the read-back are the graphics library's, and the
  pixel read back is the parameter \<open>pixel\<close>; then the decoded index selects the
  transition.
\<close>

definition evaluatePickQuery ::
  "nat \<Rightarrow> (nat \<Rightarrow> addr \<times> nat) \<Rightarrow> nat \<times> nat \<times> nat \<Rightarrow> bool \<Rightarrow> State \<Rightarrow> State" where
  "evaluatePickQuery B owner pixel doubleClicked s =
     (let s1 = (if sint (currPickBufferWidth s) \<noteq> bufferWidth s
                   \<or> sint (currPickBufferHeight s) \<noteq> bufferHeight s
                then allocatePickRenderbuffers (s\<lparr>glCalls := glCalls s @ [GlDeleteRenderbuffers]\<rparr>)
                else s);
          ind = vecToInd B pixel
      in if ind = 0 then resetPick s1 else setCurrentPickElement owner ind doubleClicked s1)"

section \<open>The colour palette\<close>

text \<open>
  The palette entries are the quotients written in the source. \<open>iPaletteColor\<close> is an
  \<open>int\<close>; \<open>randomInt(0, paletteColors.size() - 1)\<close> is a collaborator whose result is the
  parameter \<open>r\<close>, read only when \<open>iPaletteColor\<close> is -1. \<open>paletteColors[i]\<close> outside the
  vector is undefined behaviour: \<open>None\<close>. In \<open>(iPaletteColor + 1) % paletteColors.size()\<close>
  the sum is converted to the 64-bit \<open>size_t\<close> before the remainder is taken.
\<close>

definition paletteColors :: "(real \<times> real \<times> real) list" where
  "paletteColors =
     [(171 / 255, 71 / 255, 188 / 255),
      (66 / 255, 165 / 255, 245 / 255),
      (38 / 255, 166 / 255, 154 / 255),
      (255 / 255, 167 / 255, 38 / 255),
      (38 / 255, 198 / 255, 218 / 255)]"

definition getNextPaletteColor :: "int \<Rightarrow> int \<Rightarrow> ((real \<times> real \<times> real) \<times> int) option" where
  "getNextPaletteColor r iPaletteColor =
     (let i = (if iPaletteColor = - 1 then r else iPaletteColor)
      in if 0 \<le> i \<and> i < int (length paletteColors)
         then Some (paletteColors ! nat i, ((i + 1) mod 2 ^ 64) mod int (length paletteColors))
         else None)"

text \<open>\<open>n\<close> successive calls, starting with the counter at \<open>i\<close>: the colours returned.\<close>

fun nextColors :: "nat \<Rightarrow> int \<Rightarrow> int \<Rightarrow> (real \<times> real \<times> real) list option" where
  "nextColors 0 r i = Some []"
| "nextColors (Suc n) r i =
     (case getNextPaletteColor r i of
        None \<Rightarrow> None
      | Some (c, i') \<Rightarrow> map_option ((#) c) (nextColors n r i'))"

section \<open>Predicates and concrete states\<close>

text \<open>A C++ \<open>int\<close> is 32 bits wide.\<close>

definition int32 :: "int \<Rightarrow> bool" where
  "int32 v = (- (2 ^ 31) \<le> v \<and> v < 2 ^ 31)"

text \<open>
  The frame loop stores the framebuffer size in \<open>view::bufferWidth\<close> and
  \<open>view::bufferHeight\<close> with \<open>glfwGetFramebufferSize\<close> before the mouse events are
  processed: a resize of the viewport.
\<close>

definition setViewport :: "int \<Rightarrow> int \<Rightarrow> State \<Rightarrow> State" where
  "setViewport w h s = s\<lparr>bufferWidth := w, bufferHeight := h\<rparr>"

text \<open>The condition under which \<open>evaluatePickQuery\<close> reallocates.\<close>

definition pickBufferStale :: "State \<Rightarrow> bool" where
  "pickBufferStale s =
     (sint (currPickBufferWidth s) \<noteq> bufferWidth s \<or> sint (currPickBufferHeight s) \<noteq> bufferHeight s)"

text \<open>The selection references no deleted structure.\<close>

definition selectionLive :: "State \<Rightarrow> bool" where
  "selectionLive s = (case selection s of NoSelection \<Rightarrow> True | Selected q i \<Rightarrow> heap s q \<noteq> None)"

text \<open>Some category of the category map holds the name.\<close>

definition nameInUse :: "string \<Rightarrow> State \<Rightarrow> bool" where
  "nameInUse name s = (\<exists>cat \<in> set (structureCategories s). map_of (snd cat) name \<noteq> None)"

definition inUseMessage :: "string \<Rightarrow> string" where
  "inUseMessage name = ''Structure name '' @ name @ '' is already in use.''"

definition notFoundMessage :: "StructureType \<Rightarrow> string \<Rightarrow> string" where
  "notFoundMessage ty name = ''No '' @ typeNoun ty @ '' with name '' @ name @ '' registered''"

definition noRemoveMessage :: "string \<Rightarrow> string" where
  "noRemoveMessage name = ''No structure named: '' @ name @ '' to remove.''"

text \<open>A window of 1280 by 720 whose libraries initialise, and the state after \<open>init\<close>.\<close>

definition env0 :: Environment where
  "env0 = \<lparr>glfwInitOk = True, gladLoadGLOk = True, glVersion = ''4.0'',
            framebufferWidth = 1280, framebufferHeight = 720\<rparr>"

definition s0 :: State where
  "s0 = snd (init env0 initialState)"

text \<open>Two payloads: the structures built from them report these scales and boxes.\<close>

definition payloadA :: Payload where
  "payloadA = \<lparr>payloadLengthScale = Fin 2,
                payloadBoundingBox = (Vec3 (Fin 0) (Fin 0) (Fin 0), Vec3 (Fin 1) (Fin 1) (Fin 1))\<rparr>"

definition payloadB :: Payload where
  "payloadB = \<lparr>payloadLengthScale = Fin 5,
                payloadBoundingBox = (Vec3 (Fin 2) (Fin 2) (Fin 2), Vec3 (Fin 3) (Fin 3) (Fin 3))\<rparr>"

text \<open>
  A caller's sequence of registry operations. An operation that throws leaves the globals
  as they were at the throw, and the caller goes on with the next one.
\<close>

datatype Operation =
    Register StructureType string Payload bool
  | Remove string
  | RemoveAll

fun applyOperation :: "Operation \<Rightarrow> State \<Rightarrow> State" where
  "applyOperation (Register ty name payload replaceIfPresent) s =
     snd (registerStructure ty name payload replaceIfPresent s)"
| "applyOperation (Remove name) s = snd (removeStructure name s)"
| "applyOperation RemoveAll s = removeAllStructures s"

definition runOperations :: "Operation list \<Rightarrow> State \<Rightarrow> State" where
  "runOperations ops s = fold applyOperation ops s"

text \<open>
  Concrete states: one point cloud \<open>a\<close>; the same with an element of it selected; the
  initialised state with the error channel set to log; one camera view \<open>cam\<close>; one point
  cloud \<open>a\<close> with the error channel set to log; and the state after registering a camera
  view \<open>cam\<close>, removing all structures and registering a point cloud \<open>cam\<close>.
\<close>

definition sA :: State where
  "sA = snd (registerPointCloud ''a'' payloadA False initialState)"

definition sSel :: State where
  "sSel = sA\<lparr>selection := Selected 0 3\<rparr>"

definition sLog :: State where
  "sLog = s0\<lparr>exceptionOnError := False\<rparr>"

definition sCam :: State where
  "sCam = snd (registerCameraView ''cam'' payloadA False initialState)"

definition sLogA :: State where
  "sLogA = snd (registerPointCloud ''a'' payloadA False (initialState\<lparr>exceptionOnError := False\<rparr>))"

definition sDup :: State where
  "sDup = runOperations
            [Register CameraView ''cam'' payloadA False, RemoveAll,
             Register PointCloud ''cam'' payloadB False] initialState"

text \<open>
  The extent in the words of the spec, for structures that report finite boxes and
  finite, non-negative length scales: the box is the componentwise minimum and maximum
  of the boxes, or the box [(-1,-1,-1),(1,1,1)] when there is no structure; the length
  scale is the maximum of the length scales, or, when that is exactly 0 (also when there
  is no structure), the norm of the maximum corner minus the minimum corner; the center
  is half the sum of the corners. The norm and the center are computed in double
  arithmetic. A real is a finite double when rounding leaves it unchanged.
\<close>

fun toReal :: "double \<Rightarrow> real" where
  "toReal (Fin a) = a"
| "toReal _ = 0"

definition finVec :: "real \<times> real \<times> real \<Rightarrow> Vector3" where
  "finVec v = (case v of (a, b, c) \<Rightarrow> Vec3 (Fin a) (Fin b) (Fin c))"

definition coords :: "Vector3 \<Rightarrow> real \<times> real \<times> real" where
  "coords v = (toReal (vx v), toReal (vy v), toReal (vz v))"

definition finiteStructure :: "Structure \<Rightarrow> bool" where
  "finiteStructure x =
     (disfinite (slengthScale x) \<and> 0 \<le> toReal (slengthScale x)
      \<and> isFinite (fst (sboundingBox x)) \<and> isFinite (snd (sboundingBox x)))"

definition maxLengthScale :: "Structure list \<Rightarrow> real" where
  "maxLengthScale xs = Max ((\<lambda>x. toReal (slengthScale x)) ` set xs)"

definition minCorner :: "Structure list \<Rightarrow> real \<times> real \<times> real" where
  "minCorner xs =
     (Min ((\<lambda>x. toReal (vx (fst (sboundingBox x)))) ` set xs),
      Min ((\<lambda>x. toReal (vy (fst (sboundingBox x)))) ` set xs),
      Min ((\<lambda>x. toReal (vz (fst (sboundingBox x)))) ` set xs))"

definition maxCorner :: "Structure list \<Rightarrow> real \<times> real \<times> real" where
  "maxCorner xs =
     (Max ((\<lambda>x. toReal (vx (snd (sboundingBox x)))) ` set xs),
      Max ((\<lambda>x. toReal (vy (snd (sboundingBox x)))) ` set xs),
      Max ((\<lambda>x. toReal (vz (snd (sboundingBox x)))) ` set xs))"

definition exactDouble :: "real \<Rightarrow> bool" where
  "exactDouble x = (dround x = Fin x)"

definition midpoint3 :: "real \<times> real \<times> real \<Rightarrow> real \<times> real \<times> real \<Rightarrow> real \<times> real \<times> real" where
  "midpoint3 lo hi =
     (case (lo, hi) of ((l1, l2, l3), (h1, h2, h3)) \<Rightarrow>
        ((l1 + h1) / 2, (l2 + h2) / 2, (l3 + h3) / 2))"

definition specExtent :: "Structure list \<Rightarrow> double \<times> (Vector3 \<times> Vector3) \<times> Vector3" where
  "specExtent xs =
     (let lo = (if xs = [] then (- 1, - 1, - 1) else minCorner xs);
          hi = (if xs = [] then (1, 1, 1) else maxCorner xs);
          folded = (if xs = [] then 0 else maxLengthScale xs)
      in (if folded = 0 then norm3 (vsub (finVec hi) (finVec lo)) else Fin folded,
          (finVec lo, finVec hi),
          sscale (Fin (1/2)) (vadd (finVec lo) (finVec hi))))"

definition extentStep :: "Structure \<Rightarrow> double \<times> Vector3 \<times> Vector3 \<Rightarrow> double \<times> Vector3 \<times> Vector3" where
  "extentStep x acc =
     (case acc of (ls, minBbox, maxBbox) \<Rightarrow>
        (std_max ls (slengthScale x),
         componentwiseMin minBbox (fst (sboundingBox x)),
         componentwiseMax maxBbox (snd (sboundingBox x))))"

text \<open>Two structures, and the state after registering them on the initial globals.\<close>

definition structA :: Structure where
  "structA = \<lparr>stype = PointCloud, sname = ''a'', slengthScale = Fin 2,
       sboundingBox = (Vec3 (Fin 0) (Fin 0) (Fin 0), Vec3 (Fin 1) (Fin 1) (Fin 1))\<rparr>"

definition structB :: Structure where
  "structB = \<lparr>stype = SurfaceMesh, sname = ''b'', slengthScale = Fin 5,
       sboundingBox = (Vec3 (Fin 2) (Fin 2) (Fin 2), Vec3 (Fin 3) (Fin 3) (Fin 3))\<rparr>"

definition sAB :: State where
  "sAB = runOperations
           [Register PointCloud ''a'' payloadA False,
            Register SurfaceMesh ''b'' payloadB False] initialState"

text \<open>
  Two structures with a coordinate of \<open>2 ^ 1023\<close>, a finite double: one that reports the
  box [2^1023,0,0]-[2^1023,1,1] and the length scale 1, one that reports the box
  [0,0,0]-[2^1023,0,0] and the length scale 0; and the states after registering each on
  the initial globals.
\<close>

definition huge :: real where
  "huge = 2 ^ 1023"

definition payloadBig :: Payload where
  "payloadBig = \<lparr>payloadLengthScale = Fin 1,
                  payloadBoundingBox = (Vec3 (Fin huge) (Fin 0) (Fin 0), Vec3 (Fin huge) (Fin 1) (Fin 1))\<rparr>"

definition sBig :: State where
  "sBig = snd (registerPointCloud ''big'' payloadBig False initialState)"

definition payloadWide :: Payload where
  "payloadWide = \<lparr>payloadLengthScale = Fin 0,
                   payloadBoundingBox = (Vec3 (Fin 0) (Fin 0) (Fin 0), Vec3 (Fin huge) (Fin 0) (Fin 0))\<rparr>"

definition sWide :: State where
  "sWide = snd (registerPointCloud ''wide'' payloadWide False initialState)"

section \<open>The colour palette cycles\<close>

lemma palette_len: "length paletteColors = 5"
  by (simp add: paletteColors_def)

lemma getNext_in_range:
  assumes "0 \<le> i" "i < 5"
  shows "getNextPaletteColor r i = Some (paletteColors ! nat i, (i + 1) mod 5)"
proof -
  have "(i + 1) mod 2 ^ 64 = i + 1" using assms by simp
  then show ?thesis using assms by (simp add: getNextPaletteColor_def palette_len)
qed

lemma getNext_first:
  assumes "0 \<le> r" "r < 5"
  shows "getNextPaletteColor r (- 1) = Some (paletteColors ! nat r, (r + 1) mod 5)"
proof -
  have "(r + 1) mod 2 ^ 64 = r + 1" using assms by simp
  then show ?thesis using assms by (simp add: getNextPaletteColor_def palette_len)
qed

lemma cyc_step:
  assumes "0 \<le> i" "i < 5"
  shows "(nat ((i + 1) mod 5) + k) mod 5 = (nat i + Suc k) mod 5"
proof -
  have "nat ((i + 1) mod 5) = (nat i + 1) mod 5"
    using assms by (simp add: nat_mod_distrib nat_add_distrib)
  then show ?thesis by (simp add: mod_add_left_eq)
qed

lemma nextColors_from:
  assumes "0 \<le> i" "i < 5"
  shows "nextColors n r i = Some (map (\<lambda>k. paletteColors ! ((nat i + k) mod 5)) [0..<n])"
  using assms
proof (induction n arbitrary: i)
  case 0
  then show ?case by simp
next
  case (Suc n)
  have rng: "0 \<le> (i + 1) mod 5" "(i + 1) mod 5 < 5" by simp_all
  have "nextColors (Suc n) r i
        = Some (paletteColors ! nat i # map (\<lambda>k. paletteColors ! ((nat ((i + 1) mod 5) + k) mod 5)) [0..<n])"
    using Suc.prems Suc.IH [OF rng] by (simp add: getNext_in_range)
  also have "paletteColors ! nat i # map (\<lambda>k. paletteColors ! ((nat ((i + 1) mod 5) + k) mod 5)) [0..<n]
        = map (\<lambda>k. paletteColors ! ((nat i + k) mod 5)) [0..<Suc n]"
    using Suc.prems by (simp add: upt_conv_Cons map_Suc_upt [symmetric] cyc_step del: upt_Suc)
  finally show ?case .
qed

text \<open>
  C10. When \<open>randomInt(0, 4)\<close> answers \<open>r\<close> within its bounds, \<open>n\<close> successive calls of
  \<open>getNextPaletteColor\<close>, the first with the counter at its initial -1, all return: the
  call number \<open>k\<close> (from 0) returns the palette entry \<open>(r + k) mod 5\<close>, so every colour
  returned is one of the five palette colours, the first is the randomly chosen one, and
  each later one is the next entry in cyclic order, the fifth followed by the first.
\<close>

theorem getNextPaletteColor_cycle:
  assumes "0 \<le> r" "r \<le> 4"
  shows "\<exists>cs. nextColors n r (- 1) = Some cs
           \<and> cs = map (\<lambda>k. paletteColors ! ((nat r + k) mod length paletteColors)) [0..<n]
           \<and> set cs \<subseteq> set paletteColors"
proof -
  have r5: "r < 5" using assms by simp
  have "nextColors n r (- 1) = nextColors n r r"
    using assms r5 by (cases n) (simp_all add: getNext_first getNext_in_range)
  then have eq: "nextColors n r (- 1) = Some (map (\<lambda>k. paletteColors ! ((nat r + k) mod 5)) [0..<n])"
    using nextColors_from [OF assms(1) r5] by simp
  have "set (map (\<lambda>k. paletteColors ! ((nat r + k) mod 5)) [0..<n]) \<subseteq> set paletteColors"
    by (auto simp: palette_len intro!: nth_mem)
  with eq show ?thesis by (simp add: palette_len)
qed

theorem getNextPaletteColor_cycle_witness:
  "(0::int) \<le> 3 \<and> (3::int) \<le> 4 \<and> nextColors 7 3 (- 1) =
     Some [paletteColors ! 3, paletteColors ! 4, paletteColors ! 0, paletteColors ! 1,
           paletteColors ! 2, paletteColors ! 3, paletteColors ! 4]"
  using getNextPaletteColor_cycle [of 3 7] by (simp add: palette_len upt_conv_Cons del: upt_Suc)

section \<open>The pick colour codec round trip\<close>

lemma radix_roundtrip:
  fixes B ind :: nat
  assumes "0 < B" "ind < B ^ 3"
  shows "ind mod B + B * (ind div B mod B) + B * B * (ind div (B * B) mod B) = ind"
proof -
  have "ind < B * (B * B)" using assms(2) by (simp add: power3_eq_cube mult.assoc)
  then have "ind div (B * B) < B"
    using assms(1) by (simp add: less_mult_imp_div_less)
  then have hi: "ind div (B * B) mod B = ind div (B * B)" by simp
  have "ind div (B * B) = ind div B div B" by (simp add: div_mult2_eq)
  then have "B * (ind div B mod B) + B * B * (ind div (B * B)) = B * (ind div B)"
    by (metis distrib_left mult.assoc mult_div_mod_eq add.commute)
  then show ?thesis using hi by (simp add: add.assoc)
qed

text \<open>
  C3. For a radix \<open>B > 0\<close> and every index representable in the codec, decoding the
  encoding of the index gives the index back, and index 0 encodes to the triple (0,0,0).
\<close>

theorem codec_roundtrip:
  assumes "0 < B" "representable B ind"
  shows "vecToInd B (indToVec B ind) = ind \<and> indToVec B 0 = (0, 0, 0)"
  using radix_roundtrip [OF assms(1), of ind] assms(2)
  by (simp add: vecToInd_def indToVec_def representable_def)

theorem codec_roundtrip_witness:
  "(0::nat) < 256 \<and> representable 256 70000 \<and> indToVec 256 70000 = (112, 17, 1)
   \<and> vecToInd 256 (indToVec 256 70000) = 70000 \<and> indToVec 256 0 = (0, 0, 0)"
  using codec_roundtrip [of 256 70000] by (simp add: representable_def indToVec_def)

section \<open>The pick buffer is reallocated on a size change only\<close>

lemma sint_int32:
  assumes "int32 v"
  shows "sint (word_of_int v :: 32 word) = v"
proof -
  have "0 \<le> v + 2 ^ 31" "v + 2 ^ 31 < 2 ^ 32" using assms by (simp_all add: int32_def)
  then have "(v + 2 ^ 31) mod 2 ^ 32 = v + 2 ^ 31" by (rule mod_pos_pos_trivial)
  then show ?thesis by (simp add: int_word_sint)
qed

lemma q_glCalls:
  "glCalls (evaluatePickQuery B owner pixel dc s) =
     glCalls s @ (if pickBufferStale s
                  then [GlDeleteRenderbuffers,
                        GlRenderbufferStorageDepth (bufferWidth s) (bufferHeight s),
                        GlRenderbufferStorageColor (bufferWidth s) (bufferHeight s)]
                  else [])"
  by (simp add: evaluatePickQuery_def pickBufferStale_def allocatePickRenderbuffers_def
      resetPick_def setCurrentPickElement_def Let_def)

lemma q_cache:
  "currPickBufferWidth (evaluatePickQuery B owner pixel dc s) =
     (if pickBufferStale s then word_of_int (bufferWidth s) else currPickBufferWidth s)"
  "currPickBufferHeight (evaluatePickQuery B owner pixel dc s) =
     (if pickBufferStale s then word_of_int (bufferHeight s) else currPickBufferHeight s)"
  by (simp_all add: evaluatePickQuery_def pickBufferStale_def allocatePickRenderbuffers_def
      resetPick_def setCurrentPickElement_def Let_def)

lemma q_view:
  "bufferWidth (evaluatePickQuery B owner pixel dc s) = bufferWidth s"
  "bufferHeight (evaluatePickQuery B owner pixel dc s) = bufferHeight s"
  by (simp_all add: evaluatePickQuery_def allocatePickRenderbuffers_def
      resetPick_def setCurrentPickElement_def Let_def)

lemma q_fresh:
  assumes "int32 (bufferWidth s)" "int32 (bufferHeight s)"
  shows "\<not> pickBufferStale (evaluatePickQuery B owner pixel dc s)"
proof (cases "pickBufferStale s")
  case True
  then show ?thesis
    using assms
    by (simp add: pickBufferStale_def [of "evaluatePickQuery B owner pixel dc s"]
        q_cache q_view sint_int32)
next
  case False
  then show ?thesis by (simp add: pickBufferStale_def q_cache q_view)
qed

lemma s0_view:
  "bufferWidth s0 = 1280" "bufferHeight s0 = 720"
  "currPickBufferWidth s0 = 1280" "currPickBufferHeight s0 = 720"
  "glCalls s0 = [GlRenderbufferStorageDepth 1280 720, GlRenderbufferStorageColor 1280 720]"
  by (simp_all add: s0_def init_def env0_def initialState_def initPickBuffer_def
      allocatePickRenderbuffers_def Let_def)

text \<open>
  C8. Let the viewport size be two C \<open>int\<close>s. A pick query deletes the renderbuffers and
  allocates new ones, at the viewport size, exactly when the cached width or height
  differs from the viewport's; otherwise it makes no such call. After the query the cache
  holds the viewport size. A second query at the same viewport size reallocates nothing.
  If the viewport is resized to a different size between two queries, the second query
  reallocates exactly once, at the new size, caches it, and a third query reallocates
  nothing.
\<close>

theorem pick_buffer_reallocation:
  fixes s :: State and w' h' :: int and B :: nat and owner :: "nat \<Rightarrow> addr \<times> nat"
    and pixel1 pixel2 pixel3 :: "nat \<times> nat \<times> nat" and dc1 dc2 dc3 :: bool
  assumes "int32 (bufferWidth s)" "int32 (bufferHeight s)" "int32 w'" "int32 h'"
  defines "s1 \<equiv> evaluatePickQuery B owner pixel1 dc1 s"
  defines "t \<equiv> setViewport w' h' s1"
  defines "t1 \<equiv> evaluatePickQuery B owner pixel2 dc2 t"
  shows "glCalls s1 =
           glCalls s @ (if sint (currPickBufferWidth s) \<noteq> bufferWidth s
                           \<or> sint (currPickBufferHeight s) \<noteq> bufferHeight s
                        then [GlDeleteRenderbuffers,
                              GlRenderbufferStorageDepth (bufferWidth s) (bufferHeight s),
                              GlRenderbufferStorageColor (bufferWidth s) (bufferHeight s)]
                        else [])
       \<and> sint (currPickBufferWidth s1) = bufferWidth s
       \<and> sint (currPickBufferHeight s1) = bufferHeight s
       \<and> glCalls (evaluatePickQuery B owner pixel2 dc2 s1) = glCalls s1
       \<and> ((w', h') \<noteq> (bufferWidth s, bufferHeight s) \<longrightarrow>
             glCalls t1 = glCalls s1 @ [GlDeleteRenderbuffers,
                                         GlRenderbufferStorageDepth w' h',
                                         GlRenderbufferStorageColor w' h']
           \<and> sint (currPickBufferWidth t1) = w'
           \<and> sint (currPickBufferHeight t1) = h'
           \<and> glCalls (evaluatePickQuery B owner pixel3 dc3 t1) = glCalls t1)"
proof -
  have c1: "glCalls s1 =
           glCalls s @ (if sint (currPickBufferWidth s) \<noteq> bufferWidth s
                           \<or> sint (currPickBufferHeight s) \<noteq> bufferHeight s
                        then [GlDeleteRenderbuffers,
                              GlRenderbufferStorageDepth (bufferWidth s) (bufferHeight s),
                              GlRenderbufferStorageColor (bufferWidth s) (bufferHeight s)]
                        else [])"
    by (simp add: s1_def q_glCalls pickBufferStale_def)
  have fresh1: "\<not> pickBufferStale s1"
    unfolding s1_def by (rule q_fresh [OF assms(1,2)])
  then have w: "sint (currPickBufferWidth s1) = bufferWidth s"
    and h: "sint (currPickBufferHeight s1) = bufferHeight s"
    by (simp_all add: pickBufferStale_def s1_def q_view)
  have c4: "glCalls (evaluatePickQuery B owner pixel2 dc2 s1) = glCalls s1"
    using fresh1 by (simp add: q_glCalls)
  have c5: "glCalls t1 = glCalls s1 @ [GlDeleteRenderbuffers,
                                         GlRenderbufferStorageDepth w' h',
                                         GlRenderbufferStorageColor w' h']
           \<and> sint (currPickBufferWidth t1) = w'
           \<and> sint (currPickBufferHeight t1) = h'
           \<and> glCalls (evaluatePickQuery B owner pixel3 dc3 t1) = glCalls t1"
    if ne: "(w', h') \<noteq> (bufferWidth s, bufferHeight s)"
  proof -
    have stale: "pickBufferStale t"
      using ne w h by (auto simp: pickBufferStale_def setViewport_def t_def)
    have v: "bufferWidth t = w'" "bufferHeight t = h'" "glCalls t = glCalls s1"
      by (simp_all add: setViewport_def t_def)
    have fresh2: "\<not> pickBufferStale t1"
      unfolding t1_def by (rule q_fresh) (simp_all add: v assms(3,4))
    then have "glCalls (evaluatePickQuery B owner pixel3 dc3 t1) = glCalls t1"
      by (simp add: q_glCalls)
    moreover have "glCalls t1 = glCalls s1 @ [GlDeleteRenderbuffers,
                               GlRenderbufferStorageDepth w' h',
                               GlRenderbufferStorageColor w' h']"
      using stale by (simp add: t1_def q_glCalls v)
    moreover have "sint (currPickBufferWidth t1) = w'" "sint (currPickBufferHeight t1) = h'"
      using fresh2 by (simp_all add: pickBufferStale_def t1_def q_view v)
    ultimately show ?thesis by simp
  qed
  from c1 w h c4 c5 show ?thesis by blast
qed

theorem pick_buffer_reallocation_witness:
  "int32 (bufferWidth s0) \<and> int32 (bufferHeight s0) \<and> int32 800 \<and> int32 600
   \<and> glCalls (evaluatePickQuery 256 (\<lambda>i. (0, i)) (0, 0, 0) False s0) = glCalls s0
   \<and> glCalls (evaluatePickQuery 256 (\<lambda>i. (0, i)) (7, 0, 0) True
         (setViewport 800 600 (evaluatePickQuery 256 (\<lambda>i. (0, i)) (0, 0, 0) False s0)))
       = glCalls s0 @ [GlDeleteRenderbuffers, GlRenderbufferStorageDepth 800 600,
                       GlRenderbufferStorageColor 800 600]"
  using pick_buffer_reallocation [where s = s0 and w' = 800 and h' = 600 and B = 256
      and owner = "\<lambda>i. (0, i)" and ?pixel1.0 = "(0, 0, 0)" and ?dc1.0 = False
      and ?pixel2.0 = "(7, 0, 0)" and ?dc2.0 = True]
  by (simp add: s0_view int32_def)

section \<open>The transition of a pick query\<close>

text \<open>
  C7. Whatever the selection was before, a pick query whose pixel decodes to index 0
  leaves no selection; a query whose pixel decodes to a nonzero index leaves the
  selection on the structure that owns that index, at its local index.
\<close>

theorem evaluatePickQuery_selection:
  "selection (evaluatePickQuery B owner pixel doubleClicked s) =
     (if vecToInd B pixel = 0 then NoSelection
      else Selected (fst (owner (vecToInd B pixel))) (snd (owner (vecToInd B pixel))))"
  by (simp add: evaluatePickQuery_def resetPick_def setCurrentPickElement_def
      allocatePickRenderbuffers_def Let_def)

theorem evaluatePickQuery_selection_witness:
  "selection (evaluatePickQuery 256 (\<lambda>i. (4, i - 1)) (0, 0, 0) False (s0\<lparr>selection := Selected 4 9\<rparr>))
     = NoSelection
   \<and> selection (evaluatePickQuery 256 (\<lambda>i. (4, i - 1)) (7, 1, 0) True s0) = Selected 4 262"
  using evaluatePickQuery_selection [of 256 "\<lambda>i. (4, i - 1)" "(0, 0, 0)" False "s0\<lparr>selection := Selected 4 9\<rparr>"]
    evaluatePickQuery_selection [of 256 "\<lambda>i. (4, i - 1)" "(7, 1, 0)" True s0]
  by (simp add: vecToInd_def)

section \<open>Evaluating the registry on concrete states\<close>

lemmas eval_defs = registerCameraView_def registerPointCloud_def registerStructure_def
  checkStructureNameInUse_def initialState_def insertSteps_def newStructure_def
  categoryMap_update_def categoryMap_def updateStructureExtents_def allStructures_def
  initialExtent_def removeStructure_def removeSteps_def runSteps_def findTyped_def deleteStructure_def
  clearPickIfStructureSelected_def error_def removeAllStructures_def removeAllSteps_def
  deleteAll_def resetPick_def payloadA_def payloadB_def runOperations_def
  ones_def vscale_def vneg_def vsub_def vadd_def sscale_def norm3_def isFinite_def
  componentwiseMin_def componentwiseMax_def std_max_def deq_def dsub_def inf_times_def
  AList.delete_eq Let_def

lemma sA_fields:
  "structureCategories sA = [(PointCloud, [(''a'', 0)]), (SurfaceMesh, []), (CameraView, []), (RaySet, [])]"
  "pointClouds sA = [(''a'', 0)]" "surfaceMeshes sA = []" "cameraViews sA = []" "raySets sA = []"
  "exceptionOnError sA" "printPrefix sA = ''Polyscope: ''" "selection sA = NoSelection"
  "heap sA 0 = Some \<lparr>stype = PointCloud, sname = ''a'', slengthScale = Fin 2,
       sboundingBox = (Vec3 (Fin 0) (Fin 0) (Fin 0), Vec3 (Fin 1) (Fin 1) (Fin 1))\<rparr>"
  by (simp_all add: sA_def eval_defs)

lemma s0_fields:
  "initialized s0" "printPrefix s0 = ''Polyscope: ''" "stdout s0 = [''Polyscope: Loaded openGL version: 4.0'']"
  by (simp_all add: s0_def init_def env0_def initialState_def initPickBuffer_def
      allocatePickRenderbuffers_def Let_def)

section \<open>Removal clears the selection before it destroys\<close>

lemma update_extents_frame:
  "selection (updateStructureExtents s) = selection s"
  "heap (updateStructureExtents s) = heap s"
  "structureCategories (updateStructureExtents s) = structureCategories s"
  "pointClouds (updateStructureExtents s) = pointClouds s"
  "surfaceMeshes (updateStructureExtents s) = surfaceMeshes s"
  "cameraViews (updateStructureExtents s) = cameraViews s"
  "raySets (updateStructureExtents s) = raySets s"
  "stdout (updateStructureExtents s) = stdout s"
  "exceptionOnError (updateStructureExtents s) = exceptionOnError s"
  "printPrefix (updateStructureExtents s) = printPrefix s"
  "nextAddr (updateStructureExtents s) = nextAddr s"
  by (simp_all add: updateStructureExtents_def Let_def split: option.split prod.split)

lemma typedMap_update_frame:
  "selection (typedMap_update ty f s) = selection s"
  "heap (typedMap_update ty f s) = heap s"
  by (cases ty; simp)+

lemma categoryMap_update_frame:
  "selection (categoryMap_update ty f s) = selection s"
  "heap (categoryMap_update ty f s) = heap s"
  by (simp_all add: categoryMap_update_def)

lemma deleteStructure_frame:
  "selection (deleteStructure p s) = selection s"
  "heap (deleteStructure p s) = (heap s)(p := None)"
  by (auto simp: deleteStructure_def)

lemma clearPick_frame:
  "heap (clearPickIfStructureSelected p s) = heap s"
  "selection (clearPickIfStructureSelected p s) =
     (case selection s of NoSelection \<Rightarrow> NoSelection
      | Selected q i \<Rightarrow> if q = p then NoSelection else Selected q i)"
  by (simp_all add: clearPickIfStructureSelected_def split: Selection.split)

lemma remove_trace:
  "traceSteps (removeSteps ty name p) s =
     (let t1 = clearPickIfStructureSelected p s;
          t2 = deleteStructure p t1;
          t3 = typedMap_update ty (AList.delete name) t2;
          t4 = categoryMap_update ty (AList.delete name) t3;
          t5 = updateStructureExtents t4
      in [t1, t2, t3, t4, t5])"
  by (simp add: removeSteps_def Let_def)

lemma runSteps_last: "runSteps fs s = last (s # traceSteps fs s)"
  by (induction fs arbitrary: s) (simp_all add: runSteps_def)

lemma remove_trace_selection:
  assumes "t \<in> set (traceSteps (removeSteps ty name p) s)"
  shows "selection t = selection (clearPickIfStructureSelected p s)"
  using assms
  by (auto simp: remove_trace Let_def update_extents_frame typedMap_update_frame
      categoryMap_update_frame deleteStructure_frame)

lemma remove_trace_heap:
  assumes "t \<in> set (traceSteps (removeSteps ty name p) s)"
  shows "heap t = heap s \<or> heap t = (heap s)(p := None)"
  using assms
  by (auto simp: remove_trace Let_def update_extents_frame typedMap_update_frame
      categoryMap_update_frame deleteStructure_frame clearPick_frame)

text \<open>
  C6. Let \<open>removeStructure name\<close> find the structure \<open>p\<close>, and let the selection reference
  no deleted structure. Then the call returns normally, and in the state after each of
  its statements the selection references no deleted structure. If the selection
  referenced \<open>p\<close>, the first statement leaves no selection with the heap untouched, the
  second statement is the one that destroys \<open>p\<close>, and no later state has a selection. If
  the selection referenced another structure or was empty, every state has the selection
  unchanged.
\<close>

theorem removeStructure_clears_selection_first:
  fixes s :: State
  assumes "findTyped name s = Some (ty, p)" and "selectionLive s"
  defines "tr \<equiv> traceSteps (removeSteps ty name p) s"
  shows "removeStructure name s = (Inr (), last tr)
       \<and> (\<forall>t \<in> set tr. selectionLive t)
       \<and> (selection s = Selected p i \<longrightarrow>
            selection (tr ! 0) = NoSelection \<and> heap (tr ! 0) = heap s
            \<and> heap (tr ! 1) p = None
            \<and> (\<forall>t \<in> set tr. selection t = NoSelection))
       \<and> ((\<forall>j. selection s \<noteq> Selected p j) \<longrightarrow> (\<forall>t \<in> set tr. selection t = selection s))"
proof -
  have ne: "tr \<noteq> []" by (simp add: tr_def remove_trace Let_def)
  have c1: "removeStructure name s = (Inr (), last tr)"
    using assms(1) ne by (simp add: removeStructure_def runSteps_last tr_def)
  have c2: "selectionLive t" if "t \<in> set tr" for t
  proof (cases "selection t")
    case NoSelection
    then show ?thesis by (simp add: selectionLive_def)
  next
    case (Selected q j)
    from that have st: "selection t = selection (clearPickIfStructureSelected p s)"
      unfolding tr_def by (rule remove_trace_selection)
    with Selected have sel: "selection s = Selected q j" and qp: "q \<noteq> p"
      by (auto simp: clearPick_frame split: Selection.splits if_splits)
    from sel assms(2) have "heap s q \<noteq> None" by (simp add: selectionLive_def)
    moreover from that have "heap t = heap s \<or> heap t = (heap s)(p := None)"
      unfolding tr_def by (rule remove_trace_heap)
    ultimately have "heap t q \<noteq> None" using qp by auto
    with Selected show ?thesis by (simp add: selectionLive_def)
  qed
  have c3: "selection (tr ! 0) = NoSelection \<and> heap (tr ! 0) = heap s
            \<and> heap (tr ! 1) p = None
            \<and> (\<forall>t \<in> set tr. selection t = NoSelection)"
    if "selection s = Selected p i"
  proof -
    have "\<forall>t \<in> set tr. selection t = NoSelection"
      using that remove_trace_selection [of _ ty name p s] by (simp add: tr_def clearPick_frame)
    moreover have "selection (tr ! 0) = NoSelection" "heap (tr ! 0) = heap s" "heap (tr ! 1) p = None"
      using that by (simp_all add: tr_def remove_trace Let_def clearPick_frame deleteStructure_frame)
    ultimately show ?thesis by simp
  qed
  have c4: "\<forall>t \<in> set tr. selection t = selection s" if "\<forall>j. selection s \<noteq> Selected p j"
    using that remove_trace_selection [of _ ty name p s]
    by (auto simp: tr_def clearPick_frame split: Selection.splits)
  from c1 c2 c3 c4 show ?thesis by blast
qed

theorem removeStructure_clears_selection_first_witness:
  "findTyped ''a'' sSel = Some (PointCloud, 0) \<and> selectionLive sSel
   \<and> selection sSel = Selected 0 3
   \<and> selection (traceSteps (removeSteps PointCloud ''a'' 0) sSel ! 0) = NoSelection
   \<and> heap (traceSteps (removeSteps PointCloud ''a'' 0) sSel ! 0) = heap sSel
   \<and> heap (traceSteps (removeSteps PointCloud ''a'' 0) sSel ! 1) 0 = None
   \<and> findTyped ''a'' sA = Some (PointCloud, 0) \<and> selectionLive sA
   \<and> removeStructure ''a'' sA = (Inr (), last (traceSteps (removeSteps PointCloud ''a'' 0) sA))"
proof -
  have h1: "findTyped ''a'' sSel = Some (PointCloud, 0)"
    by (simp add: sSel_def findTyped_def sA_fields)
  have h2: "selectionLive sSel"
    by (simp add: sSel_def selectionLive_def sA_fields)
  have h3: "selection sSel = Selected 0 3"
    by (simp add: sSel_def)
  have h4: "findTyped ''a'' sA = Some (PointCloud, 0)"
    by (simp add: findTyped_def sA_fields)
  have h5: "selectionLive sA"
    by (simp add: selectionLive_def sA_fields)
  from removeStructure_clears_selection_first [OF h1 h2, of 3] h3
  have a: "selection (traceSteps (removeSteps PointCloud ''a'' 0) sSel ! 0) = NoSelection
     \<and> heap (traceSteps (removeSteps PointCloud ''a'' 0) sSel ! 0) = heap sSel
     \<and> heap (traceSteps (removeSteps PointCloud ''a'' 0) sSel ! 1) 0 = None"
    by blast
  from removeStructure_clears_selection_first [OF h4 h5, of 3]
  have b: "removeStructure ''a'' sA = (Inr (), last (traceSteps (removeSteps PointCloud ''a'' 0) sA))"
    by blast
  from a b h1 h2 h3 h4 h5 show ?thesis by blast
qed

section \<open>The misuse errors\<close>

lemma checkLoop_in_use:
  assumes "\<exists>cat \<in> set cats. map_of (snd cat) name \<noteq> None"
  shows "checkLoop cats name True s =
           (case error (inUseMessage name) s of
              (Inl e, s') \<Rightarrow> (Inl e, s')
            | (Inr u, s') \<Rightarrow> (Inr True, s'))"
  using assms by (induction cats) (auto simp: inUseMessage_def)

lemma error_state: "(snd (error message s))\<lparr>stdout := stdout s\<rparr> = s"
  by (simp add: error_def)

lemma error_raise: "exceptionOnError s \<Longrightarrow> error message s = (Inl (LogicError (printPrefix s @ message)), s)"
  by (simp add: error_def)

text \<open>
  C9, as amended. A duplicate name without replace permission, the lookup of an unknown
  name and the removal of an unknown name are reported through \<open>error\<close>, which raises a
  logic error when \<open>exceptionOnError\<close> is set and otherwise logs and returns;
  double initialisation is raised directly, whatever the flag. When the duplicate name
  is raised, and in both modes of the failed lookup, the failed removal and the double
  initialisation, every global other than the console output is left as it was.
\<close>

theorem misuse_errors:
  "(nameInUse name s \<longrightarrow>
      checkStructureNameInUse name True s =
        (case error (inUseMessage name) s of
           (Inl e, s') \<Rightarrow> (Inl e, s')
         | (Inr u, s') \<Rightarrow> (Inr True, s'))
      \<and> (exceptionOnError s \<longrightarrow>
            registerStructure ty name payload False s =
              (Inl (LogicError (printPrefix s @ inUseMessage name)), s)))
   \<and> (map_of (typedMap ty s) name = None \<longrightarrow>
        getStructure ty name s =
          (case error (notFoundMessage ty name) s of
             (Inl e, s') \<Rightarrow> (Inl e, s')
           | (Inr u, s') \<Rightarrow> (Inr None, s'))
        \<and> (snd (getStructure ty name s))\<lparr>stdout := stdout s\<rparr> = s)
   \<and> (findTyped name s = None \<longrightarrow>
        removeStructure name s = error (noRemoveMessage name) s
        \<and> (snd (removeStructure name s))\<lparr>stdout := stdout s\<rparr> = s)
   \<and> (initialized s \<longrightarrow>
        init env s = (Inl (LogicError (printPrefix s @ ''Initialize called twice'')), s))"
proof -
  have a: "checkStructureNameInUse name True s =
        (case error (inUseMessage name) s of
           (Inl e, s') \<Rightarrow> (Inl e, s')
         | (Inr u, s') \<Rightarrow> (Inr True, s'))" if "nameInUse name s"
    using that unfolding nameInUse_def checkStructureNameInUse_def by (rule checkLoop_in_use)
  have a': "registerStructure ty name payload False s =
              (Inl (LogicError (printPrefix s @ inUseMessage name)), s)"
    if "nameInUse name s" "exceptionOnError s"
    using a [OF that(1)] that(2) by (simp add: registerStructure_def error_raise)
  have b: "getStructure ty name s =
          (case error (notFoundMessage ty name) s of
             (Inl e, s') \<Rightarrow> (Inl e, s')
           | (Inr u, s') \<Rightarrow> (Inr None, s'))" if "map_of (typedMap ty s) name = None"
    using that by (simp add: getStructure_def notFoundMessage_def)
  have b': "(snd (getStructure ty name s))\<lparr>stdout := stdout s\<rparr> = s"
    if "map_of (typedMap ty s) name = None"
    unfolding b [OF that] by (simp add: error_def)
  have c: "removeStructure name s = error (noRemoveMessage name) s" if "findTyped name s = None"
    using that by (simp add: removeStructure_def noRemoveMessage_def)
  have d: "init env s = (Inl (LogicError (printPrefix s @ ''Initialize called twice'')), s)"
    if "initialized s"
    using that by (simp add: init_def)
  from a a' b b' c d error_state show ?thesis by simp
qed

theorem misuse_errors_witness:
  "nameInUse ''a'' sA \<and> exceptionOnError sA
   \<and> registerStructure PointCloud ''a'' payloadB False sA
       = (Inl (LogicError ''Polyscope: Structure name a is already in use.''), sA)
   \<and> map_of (typedMap CameraView sA) ''a'' = None
   \<and> getStructure CameraView ''a'' sA
       = (Inl (LogicError ''Polyscope: No camera view with name a registered''), sA)
   \<and> findTyped ''b'' sA = None
   \<and> removeStructure ''b'' sA = (Inl (LogicError ''Polyscope: No structure named: b to remove.''), sA)
   \<and> initialized sLog \<and> \<not> exceptionOnError sLog
   \<and> init env0 sLog = (Inl (LogicError ''Polyscope: Initialize called twice''), sLog)"
proof -
  have h1: "nameInUse ''a'' sA" by (simp add: nameInUse_def sA_fields)
  have h2: "map_of (typedMap CameraView sA) ''a'' = None" by (simp add: sA_fields)
  have h3: "findTyped ''b'' sA = None" by (simp add: findTyped_def sA_fields)
  have h4: "initialized sLog" "\<not> exceptionOnError sLog" "printPrefix sLog = ''Polyscope: ''"
    by (simp_all add: sLog_def s0_fields)
  from misuse_errors [of "''a''" sA PointCloud payloadB env0]
    misuse_errors [of "''a''" sA CameraView payloadB env0]
    misuse_errors [of "''b''" sA PointCloud payloadB env0]
    misuse_errors [of "''a''" sLog PointCloud payloadB env0]
    h1 h2 h3 h4
  show ?thesis
    by (simp add: sA_fields error_def inUseMessage_def notFoundMessage_def noRemoveMessage_def)
qed

text \<open>
  The claim as stated fails for double initialisation: with the error channel set to log
  and continue, \<open>error\<close> would return after logging, but \<open>init\<close> raises and logs nothing.
\<close>

theorem double_init_bypasses_error_channel:
  "fst (error ''Initialize called twice'' sLog) = Inr ()
   \<and> stdout (snd (error ''Initialize called twice'' sLog))
       = stdout sLog @ [''Polyscope: Initialize called twice'']
   \<and> fst (init env0 sLog) = Inl (LogicError ''Polyscope: Initialize called twice'')
   \<and> stdout (snd (init env0 sLog)) = stdout sLog"
  by (simp add: error_def init_def sLog_def s0_fields)

section \<open>Defects of \<open>removeAllStructures\<close> and of a logged duplicate name\<close>

text \<open>
  C1. With one camera view \<open>cam\<close> registered, \<open>removeAllStructures\<close> clears the category map
  but neither destroys the camera view nor clears the typed map of the camera views: the
  object is still in the heap and \<open>state::cameraViews\<close> still holds its name.
\<close>

theorem removeAllStructures_leaves_camera_views:
  "heap sCam 0 = Some \<lparr>stype = CameraView, sname = ''cam'', slengthScale = Fin 2,
       sboundingBox = (Vec3 (Fin 0) (Fin 0) (Fin 0), Vec3 (Fin 1) (Fin 1) (Fin 1))\<rparr>
   \<and> cameraViews sCam = [(''cam'', 0)]
   \<and> heap (removeAllStructures sCam) 0 = heap sCam 0
   \<and> cameraViews (removeAllStructures sCam) = [(''cam'', 0)]
   \<and> structureCategories (removeAllStructures sCam) = []"
  by (simp add: sCam_def eval_defs)

text \<open>
  C2. With the error channel set to log and continue and a point cloud \<open>a\<close> registered,
  registering \<open>a\<close> again with \<open>replaceIfPresent = false\<close> logs the error and then goes on:
  the old structure is destroyed, a new one is inserted and the extent is recomputed.
\<close>

theorem register_duplicate_logged_replaces:
  "exceptionOnError sLogA = False
   \<and> pointClouds sLogA = [(''a'', 0)]
   \<and> structureCategories sLogA = [(PointCloud, [(''a'', 0)]), (SurfaceMesh, []), (CameraView, []), (RaySet, [])]
   \<and> heap sLogA 0 = Some \<lparr>stype = PointCloud, sname = ''a'', slengthScale = Fin 2,
        sboundingBox = (Vec3 (Fin 0) (Fin 0) (Fin 0), Vec3 (Fin 1) (Fin 1) (Fin 1))\<rparr>
   \<and> lengthScale sLogA = Fin 2
   \<and> fst (registerPointCloud ''a'' payloadB False sLogA) = Inr ()
   \<and> stdout (snd (registerPointCloud ''a'' payloadB False sLogA))
        = [''Polyscope: Structure name a is already in use.'']
   \<and> heap (snd (registerPointCloud ''a'' payloadB False sLogA)) 0 = None
   \<and> heap (snd (registerPointCloud ''a'' payloadB False sLogA)) 1
        = Some \<lparr>stype = PointCloud, sname = ''a'', slengthScale = Fin 5,
            sboundingBox = (Vec3 (Fin 2) (Fin 2) (Fin 2), Vec3 (Fin 3) (Fin 3) (Fin 3))\<rparr>
   \<and> pointClouds (snd (registerPointCloud ''a'' payloadB False sLogA)) = [(''a'', 1)]
   \<and> structureCategories (snd (registerPointCloud ''a'' payloadB False sLogA))
        = [(PointCloud, [(''a'', 1)]), (SurfaceMesh, []), (CameraView, []), (RaySet, [])]
   \<and> lengthScale (snd (registerPointCloud ''a'' payloadB False sLogA)) = Fin 5"
  by (simp add: sLogA_def eval_defs)

text \<open>
  C5. After registering a camera view \<open>cam\<close>, removing all structures and registering a
  point cloud \<open>cam\<close>, two structures named \<open>cam\<close> are alive, the typed maps of the camera
  views and of the point clouds both hold the name, and the category map holds it for
  the point clouds only.
\<close>

theorem duplicate_name_after_removeAll:
  "heap sDup 0 = Some \<lparr>stype = CameraView, sname = ''cam'', slengthScale = Fin 2,
       sboundingBox = (Vec3 (Fin 0) (Fin 0) (Fin 0), Vec3 (Fin 1) (Fin 1) (Fin 1))\<rparr>
   \<and> heap sDup 1 = Some \<lparr>stype = PointCloud, sname = ''cam'', slengthScale = Fin 5,
       sboundingBox = (Vec3 (Fin 2) (Fin 2) (Fin 2), Vec3 (Fin 3) (Fin 3) (Fin 3))\<rparr>
   \<and> cameraViews sDup = [(''cam'', 0)]
   \<and> pointClouds sDup = [(''cam'', 1)]
   \<and> structureCategories sDup = [(PointCloud, [(''cam'', 1)])]"
  by (simp add: sDup_def eval_defs)

section \<open>Rounding\<close>

lemma roundHalfEven_int: "roundHalfEven (of_int m) = m"
  by (simp add: roundHalfEven_def)

lemma dround_zero: "dround 0 = Fin 0"
  by (simp add: dround_def)

lemma floor_log2:
  assumes "2 powr of_int e \<le> x" "x < 2 powr of_int (e + 1)"
  shows "\<lfloor>log 2 x\<rfloor> = e"
proof -
  have pos: "0 < x" using assms(1) by (smt (verit) powr_gt_zero)
  have "of_int e \<le> log 2 x" using assms(1) pos by (simp add: le_log_iff)
  moreover have "log 2 x < of_int (e + 1)" using assms(2) pos by (simp add: log_less_iff)
  ultimately show ?thesis by (simp add: floor_eq_iff)
qed

lemma dround_exact:
  assumes "2 powr of_int e \<le> \<bar>x\<bar>" "\<bar>x\<bar> < 2 powr of_int (e + 1)"
    and "- 1022 \<le> e" "e \<le> 1023"
    and "x = of_int m * 2 powr of_int (e - 52)"
  shows "dround x = Fin x"
proof -
  have nz: "x \<noteq> 0" using assms(1) by (smt (verit) powr_gt_zero)
  have fl: "\<lfloor>log 2 \<bar>x\<bar>\<rfloor> = e" using assms(1,2) by (rule floor_log2)
  have mx: "max e (- 1022) = e" using assms(3) by simp
  have q: "x / 2 powr of_int (e - 52) = of_int m" using assms(5) by simp
  have "2 powr of_int (e + 1) \<le> (2::real) powr 1024"
    using assms(4) by (intro powr_mono) simp_all
  then have small: "\<not> 2 powr 1024 \<le> \<bar>x\<bar>" using assms(2) by simp
  show ?thesis
    unfolding dround_def Let_def fl mx q roundHalfEven_int
    using nz small assms(5) by simp
qed

lemma dround_3: "dround 3 = Fin 3"
  by (rule dround_exact [where e = 1 and m = "3 * 2 ^ 51"]) (simp_all add: powr_minus)

lemma dround_3_2: "dround (3 / 2) = Fin (3 / 2)"
  by (rule dround_exact [where e = 0 and m = "3 * 2 ^ 51"]) (simp_all add: powr_minus)

lemma dround_2: "dround 2 = Fin 2"
  by (rule dround_exact [where e = 1 and m = "2 ^ 52"]) (simp_all add: powr_minus)

lemma dround_4: "dround 4 = Fin 4"
  by (rule dround_exact [where e = 2 and m = "2 ^ 52"]) (simp_all add: powr_minus)

lemma dround_8: "dround 8 = Fin 8"
  by (rule dround_exact [where e = 3 and m = "2 ^ 52"]) (simp_all add: powr_minus)

lemma dround_12: "dround 12 = Fin 12"
  by (rule dround_exact [where e = 3 and m = "3 * 2 ^ 51"]) (simp_all add: powr_minus)

lemma dround_huge_sum: "dround (huge + huge) = PosInf"
proof -
  have x: "huge + huge = 2 powr 1024"
    by (simp add: huge_def)
  have fl: "\<lfloor>log 2 \<bar>2 powr 1024\<bar>\<rfloor> = 1024"
    by (rule floor_log2) simp_all
  have q: "(2::real) powr 1024 / 2 powr of_int (1024 - 52) = of_int (2 ^ 52)"
    by simp
  show ?thesis
    unfolding x dround_def Let_def fl
    by (simp add: roundHalfEven_def)
qed

lemma dround_huge_twice: "dround (2 * huge) = PosInf"
  using dround_huge_sum by simp

lemma dround_huge_square: "dround (huge * huge) = PosInf"
proof -
  have x: "huge * huge = 2 powr 2046"
    by (simp add: huge_def flip: power_add)
  have fl: "\<lfloor>log 2 \<bar>2 powr 2046\<bar>\<rfloor> = 2046"
    by (rule floor_log2) simp_all
  show ?thesis
    unfolding x dround_def Let_def fl
    by (simp add: roundHalfEven_def)
qed

lemma huge_pos: "0 < huge"
  by (simp add: huge_def)

lemma dround_huge: "dround huge = Fin huge"
  unfolding huge_def
  by (rule dround_exact [where e = 1023 and m = "2 ^ 52"]) (simp_all add: powr_minus)

section \<open>The extent is the fold the spec describes\<close>

lemma extentLoop_fold:
  assumes "map h ps = map Some xs"
  shows "extentLoop h ps acc = Some (fold extentStep xs acc)"
  using assms
proof (induction ps arbitrary: xs acc)
  case Nil
  then show ?case by simp
next
  case (Cons p ps)
  then obtain x xs' where xs: "xs = x # xs'" "h p = Some x" "map h ps = map Some xs'"
    by (cases xs) auto
  obtain ls mn mx where acc: "acc = (ls, mn, mx)" by (cases acc)
  show ?case using Cons.IH [OF xs(3)] xs acc by (simp add: extentStep_def)
qed

lemma finite_double: "disfinite d \<Longrightarrow> d = Fin (toReal d)"
  by (cases d) simp_all

lemma finite_vector: "isFinite v \<Longrightarrow> v = finVec (coords v)"
  by (cases v) (auto simp: isFinite_def finVec_def coords_def dest: finite_double)

lemma extentStep_finite:
  assumes "finiteStructure x"
  shows "extentStep x (Fin l, finVec (a1, a2, a3), finVec (b1, b2, b3)) =
           (Fin (max l (toReal (slengthScale x))),
            finVec (min a1 (toReal (vx (fst (sboundingBox x)))),
                    min a2 (toReal (vy (fst (sboundingBox x)))),
                    min a3 (toReal (vz (fst (sboundingBox x))))),
            finVec (max b1 (toReal (vx (snd (sboundingBox x)))),
                    max b2 (toReal (vy (snd (sboundingBox x)))),
                    max b3 (toReal (vz (snd (sboundingBox x))))))"
proof -
  from assms obtain l' where l: "slengthScale x = Fin l'"
    by (auto simp: finiteStructure_def dest: finite_double)
  from assms obtain u1 u2 u3 where u: "fst (sboundingBox x) = Vec3 (Fin u1) (Fin u2) (Fin u3)"
    using finite_vector [of "fst (sboundingBox x)"]
    by (auto simp: finiteStructure_def finVec_def coords_def)
  from assms obtain w1 w2 w3 where w: "snd (sboundingBox x) = Vec3 (Fin w1) (Fin w2) (Fin w3)"
    using finite_vector [of "snd (sboundingBox x)"]
    by (auto simp: finiteStructure_def finVec_def coords_def)
  show ?thesis
    by (simp add: extentStep_def l u w finVec_def std_max_def componentwiseMin_def
        componentwiseMax_def max_def min_def)
qed

lemma extentStep_first:
  assumes "finiteStructure x"
  shows "extentStep x (Fin 0, vscale ones PosInf, vscale (vneg ones) PosInf) =
           (Fin (toReal (slengthScale x)),
            finVec (coords (fst (sboundingBox x))),
            finVec (coords (snd (sboundingBox x))))"
proof -
  from assms obtain l' where l: "slengthScale x = Fin l'" "0 \<le> l'"
    by (auto simp: finiteStructure_def dest: finite_double)
  from assms obtain u1 u2 u3 where u: "fst (sboundingBox x) = Vec3 (Fin u1) (Fin u2) (Fin u3)"
    using finite_vector [of "fst (sboundingBox x)"]
    by (auto simp: finiteStructure_def finVec_def coords_def)
  from assms obtain w1 w2 w3 where w: "snd (sboundingBox x) = Vec3 (Fin w1) (Fin w2) (Fin w3)"
    using finite_vector [of "snd (sboundingBox x)"]
    by (auto simp: finiteStructure_def finVec_def coords_def)
  show ?thesis
    using l(2)
    by (simp add: extentStep_def l(1) u w finVec_def coords_def std_max_def componentwiseMin_def
        componentwiseMax_def ones_def vscale_def vneg_def inf_times_def)
qed

lemma fold_max_Max:
  fixes f :: "'a \<Rightarrow> real"
  shows "fold (\<lambda>x a. max a (f x)) xs a0 = Max (insert a0 (f ` set xs))"
proof (induction xs arbitrary: a0)
  case Nil
  then show ?case by simp
next
  case (Cons x xs)
  have "Max (insert (max a0 (f x)) (f ` set xs)) = Max (insert a0 (insert (f x) (f ` set xs)))"
    by (cases "set xs = {}") (simp_all add: max.assoc)
  then show ?case using Cons.IH [of "max a0 (f x)"] by simp
qed

lemma fold_min_Min:
  fixes f :: "'a \<Rightarrow> real"
  shows "fold (\<lambda>x a. min a (f x)) xs a0 = Min (insert a0 (f ` set xs))"
proof (induction xs arbitrary: a0)
  case Nil
  then show ?case by simp
next
  case (Cons x xs)
  have "Min (insert (min a0 (f x)) (f ` set xs)) = Min (insert a0 (insert (f x) (f ` set xs)))"
    by (cases "set xs = {}") (simp_all add: min.assoc)
  then show ?case using Cons.IH [of "min a0 (f x)"] by simp
qed

lemma fold_extentStep_finite:
  assumes "\<forall>x \<in> set xs. finiteStructure x"
  shows "fold extentStep xs (Fin l, finVec (a1, a2, a3), finVec (b1, b2, b3)) =
           (Fin (fold (\<lambda>x a. max a (toReal (slengthScale x))) xs l),
            finVec (fold (\<lambda>x a. min a (toReal (vx (fst (sboundingBox x))))) xs a1,
                    fold (\<lambda>x a. min a (toReal (vy (fst (sboundingBox x))))) xs a2,
                    fold (\<lambda>x a. min a (toReal (vz (fst (sboundingBox x))))) xs a3),
            finVec (fold (\<lambda>x a. max a (toReal (vx (snd (sboundingBox x))))) xs b1,
                    fold (\<lambda>x a. max a (toReal (vy (snd (sboundingBox x))))) xs b2,
                    fold (\<lambda>x a. max a (toReal (vz (snd (sboundingBox x))))) xs b3))"
  using assms
proof (induction xs arbitrary: l a1 a2 a3 b1 b2 b3)
  case Nil
  then show ?case by simp
next
  case (Cons x xs)
  then have fx: "finiteStructure x" and rest: "\<forall>y \<in> set xs. finiteStructure y" by simp_all
  show ?case by (simp add: extentStep_finite [OF fx] Cons.IH [OF rest])
qed

lemma fold_extentStep_nonempty:
  assumes "\<forall>y \<in> set (x # xs). finiteStructure y"
  shows "fold extentStep (x # xs) (Fin 0, vscale ones PosInf, vscale (vneg ones) PosInf) =
           (Fin (maxLengthScale (x # xs)), finVec (minCorner (x # xs)), finVec (maxCorner (x # xs)))"
proof -
  from assms have fx: "finiteStructure x" and rest: "\<forall>y \<in> set xs. finiteStructure y" by simp_all
  have "fold extentStep (x # xs) (Fin 0, vscale ones PosInf, vscale (vneg ones) PosInf) =
          fold extentStep xs (Fin (toReal (slengthScale x)),
            finVec (coords (fst (sboundingBox x))), finVec (coords (snd (sboundingBox x))))"
    by (simp add: extentStep_first [OF fx])
  also have "\<dots> = (Fin (maxLengthScale (x # xs)), finVec (minCorner (x # xs)), finVec (maxCorner (x # xs)))"
    unfolding coords_def fold_extentStep_finite [OF rest]
    by (simp add: fold_max_Max fold_min_Min maxLengthScale_def minCorner_def maxCorner_def)
  finally show ?thesis .
qed

lemma isFinite_finVec: "isFinite (finVec v)"
  by (cases v) (simp add: isFinite_def finVec_def)

lemma update_finite:
  assumes "extentLoop (heap s) (allStructures s) initialExtent = Some (Fin m, finVec lo, finVec hi)"
  shows "updateStructureExtents s =
           s\<lparr>lengthScale := (if m = 0 then norm3 (vsub (finVec hi) (finVec lo)) else Fin m),
             boundingBox := (finVec lo, finVec hi),
             center := sscale (Fin (1/2)) (vadd (finVec lo) (finVec hi))\<rparr>"
  using assms unfolding updateStructureExtents_def
  by (simp add: isFinite_finVec deq_def)

lemma center_origin: "sscale (Fin (1/2)) (vadd (vneg ones) ones) = finVec (0, 0, 0)"
  by (simp add: sscale_def vadd_def vneg_def ones_def finVec_def dround_zero)

lemma update_reset:
  assumes "extentLoop (heap s) (allStructures s) initialExtent = Some (ls, mn, mx)"
    and "\<not> isFinite mn \<or> \<not> isFinite mx"
  shows "boundingBox (updateStructureExtents s) = (finVec (- 1, - 1, - 1), finVec (1, 1, 1))
       \<and> center (updateStructureExtents s) = finVec (0, 0, 0)"
proof -
  have b: "(vneg ones, ones) = (finVec (- 1, - 1, - 1), finVec (1, 1, 1))"
    by (simp add: finVec_def vneg_def ones_def)
  show ?thesis
    using assms unfolding updateStructureExtents_def
    by (auto simp: center_origin b [symmetric])
qed

lemma update_empty:
  assumes "allStructures s = []"
  shows "updateStructureExtents s =
           s\<lparr>lengthScale := norm3 (vsub (finVec (1, 1, 1)) (finVec (- 1, - 1, - 1))),
             boundingBox := (finVec (- 1, - 1, - 1), finVec (1, 1, 1)),
             center := sscale (Fin (1/2)) (vadd (finVec (- 1, - 1, - 1)) (finVec (1, 1, 1)))\<rparr>"
proof -
  have b: "vneg ones = finVec (- 1, - 1, - 1)" "ones = finVec (1, 1, 1)"
    "vneg (finVec (1, 1, 1)) = finVec (- 1, - 1, - 1)"
    by (simp_all add: finVec_def vneg_def ones_def)
  have nf: "\<not> isFinite (vscale ones PosInf)"
    by (simp add: isFinite_def vscale_def ones_def inf_times_def)
  show ?thesis
    using assms nf unfolding updateStructureExtents_def
    by (simp add: initialExtent_def deq_def b)
qed

lemma update_spec:
  assumes "map (heap s) (allStructures s) = map Some xs" "\<forall>x \<in> set xs. finiteStructure x"
  shows "updateStructureExtents s =
           s\<lparr>lengthScale := fst (specExtent xs),
             boundingBox := fst (snd (specExtent xs)),
             center := snd (snd (specExtent xs))\<rparr>"
proof (cases xs)
  case Nil
  with assms(1) have "allStructures s = []" by simp
  then show ?thesis using Nil by (simp add: update_empty specExtent_def Let_def)
next
  case (Cons x xs')
  have "extentLoop (heap s) (allStructures s) initialExtent =
          Some (Fin (maxLengthScale xs), finVec (minCorner xs), finVec (maxCorner xs))"
    using assms(2) unfolding extentLoop_fold [OF assms(1)] initialExtent_def Cons
    by (simp only: fold_extentStep_nonempty)
  from update_finite [OF this] show ?thesis
    using Cons by (simp add: specExtent_def Let_def)
qed

lemma center_exact:
  assumes "exactDouble (l1 + h1)" "exactDouble ((l1 + h1) / 2)"
    and "exactDouble (l2 + h2)" "exactDouble ((l2 + h2) / 2)"
    and "exactDouble (l3 + h3)" "exactDouble ((l3 + h3) / 2)"
  shows "sscale (Fin (1/2)) (vadd (finVec (l1, l2, l3)) (finVec (h1, h2, h3))) =
           finVec (midpoint3 (l1, l2, l3) (h1, h2, h3))"
  using assms
  by (simp add: sscale_def vadd_def finVec_def midpoint3_def exactDouble_def)

lemma update_example:
  assumes "map (heap u) (allStructures u) = [Some a, Some b]"
    and "sboundingBox a = (finVec (0, 0, 0), finVec (1, 1, 1))"
    and "sboundingBox b = (finVec (2, 2, 2), finVec (3, 3, 3))"
  shows "boundingBox (updateStructureExtents u) = (finVec (0, 0, 0), finVec (3, 3, 3))
       \<and> center (updateStructureExtents u) = finVec (3/2, 3/2, 3/2)"
proof -
  from assms(1) obtain p q where pq: "allStructures u = [p, q]" "heap u p = Some a" "heap u q = Some b"
    by (auto simp: map_eq_Cons_conv)
  show ?thesis
    by (simp add: updateStructureExtents_def initialExtent_def pq assms(2,3) finVec_def isFinite_def
        vscale_def ones_def inf_times_def vneg_def componentwiseMin_def componentwiseMax_def
        sscale_def vadd_def dround_3 dround_3_2 Let_def split: prod.split)
qed

text \<open>
  C4, as amended. Let every pointer of the category map be live and let the structures
  report finite boxes and finite, non-negative length scales. Then recomputing the extent
  changes the three extent globals only: the box becomes the componentwise minimum and
  maximum of the structures' boxes, or [(-1,-1,-1),(1,1,1)] without a structure; the
  length scale becomes the maximum of the structures' length scales, or, when that is
  exactly 0 (also without a structure), the norm of the maximum corner minus the minimum
  corner as double arithmetic computes it; the center becomes half the sum of the
  corners as double arithmetic computes it. Whatever the structures report, a non-finite
  corner after the loop resets the box to [(-1,-1,-1),(1,1,1)] with the center at the
  origin. Where the sum of the two corners and its half are finite doubles in each axis,
  the center is the exact midpoint. For two structures with the boxes [0,0,0]-[1,1,1] and
  [2,2,2]-[3,3,3] the box is [0,0,0]-[3,3,3] and the center (1.5,1.5,1.5).
\<close>

theorem updateStructureExtents_spec:
  "(map (heap s) (allStructures s) = map Some xs \<and> (\<forall>x \<in> set xs. finiteStructure x) \<longrightarrow>
      updateStructureExtents s =
        s\<lparr>lengthScale := fst (specExtent xs),
          boundingBox := fst (snd (specExtent xs)),
          center := snd (snd (specExtent xs))\<rparr>)
   \<and> (extentLoop (heap t) (allStructures t) initialExtent = Some (ls, mn, mx)
        \<and> (\<not> isFinite mn \<or> \<not> isFinite mx) \<longrightarrow>
      boundingBox (updateStructureExtents t) = (finVec (- 1, - 1, - 1), finVec (1, 1, 1))
      \<and> center (updateStructureExtents t) = finVec (0, 0, 0))
   \<and> (exactDouble (l1 + h1) \<and> exactDouble ((l1 + h1) / 2)
        \<and> exactDouble (l2 + h2) \<and> exactDouble ((l2 + h2) / 2)
        \<and> exactDouble (l3 + h3) \<and> exactDouble ((l3 + h3) / 2) \<longrightarrow>
      sscale (Fin (1/2)) (vadd (finVec (l1, l2, l3)) (finVec (h1, h2, h3))) =
        finVec (midpoint3 (l1, l2, l3) (h1, h2, h3)))
   \<and> (map (heap u) (allStructures u) = [Some a, Some b]
        \<and> sboundingBox a = (finVec (0, 0, 0), finVec (1, 1, 1))
        \<and> sboundingBox b = (finVec (2, 2, 2), finVec (3, 3, 3)) \<longrightarrow>
      boundingBox (updateStructureExtents u) = (finVec (0, 0, 0), finVec (3, 3, 3))
      \<and> center (updateStructureExtents u) = finVec (3/2, 3/2, 3/2))"
proof (intro conjI impI)
  assume "map (heap s) (allStructures s) = map Some xs \<and> (\<forall>x \<in> set xs. finiteStructure x)"
  then show "updateStructureExtents s =
        s\<lparr>lengthScale := fst (specExtent xs),
          boundingBox := fst (snd (specExtent xs)),
          center := snd (snd (specExtent xs))\<rparr>"
    using update_spec [of s xs] by simp
next
  assume r: "extentLoop (heap t) (allStructures t) initialExtent = Some (ls, mn, mx)
        \<and> (\<not> isFinite mn \<or> \<not> isFinite mx)"
  then show "boundingBox (updateStructureExtents t) = (finVec (- 1, - 1, - 1), finVec (1, 1, 1))"
    using update_reset [of t ls mn mx] by simp
  from r show "center (updateStructureExtents t) = finVec (0, 0, 0)"
    using update_reset [of t ls mn mx] by simp
next
  assume "exactDouble (l1 + h1) \<and> exactDouble ((l1 + h1) / 2)
        \<and> exactDouble (l2 + h2) \<and> exactDouble ((l2 + h2) / 2)
        \<and> exactDouble (l3 + h3) \<and> exactDouble ((l3 + h3) / 2)"
  then show "sscale (Fin (1/2)) (vadd (finVec (l1, l2, l3)) (finVec (h1, h2, h3))) =
        finVec (midpoint3 (l1, l2, l3) (h1, h2, h3))"
    using center_exact [of l1 h1 l2 h2 l3 h3] by simp
next
  assume e: "map (heap u) (allStructures u) = [Some a, Some b]
        \<and> sboundingBox a = (finVec (0, 0, 0), finVec (1, 1, 1))
        \<and> sboundingBox b = (finVec (2, 2, 2), finVec (3, 3, 3))"
  then show "boundingBox (updateStructureExtents u) = (finVec (0, 0, 0), finVec (3, 3, 3))"
    using update_example [of u a b] by simp
  from e show "center (updateStructureExtents u) = finVec (3/2, 3/2, 3/2)"
    using update_example [of u a b] by simp
qed

lemma sAB_fields:
  "allStructures sAB = [0, 1]" "heap sAB 0 = Some structA" "heap sAB 1 = Some structB"
  "heap sAB (Suc 0) = Some structB"
  by (simp_all add: sAB_def eval_defs structA_def structB_def)

lemma center_AB:
  "sscale (Fin (1/2)) (vadd (finVec (0, 0, 0)) (finVec (3, 3, 3))) = finVec (3/2, 3/2, 3/2)"
  by (simp add: sscale_def vadd_def finVec_def dround_3 dround_3_2)

lemma specExtent_AB:
  "specExtent [structA, structB] =
     (Fin 5, (finVec (0, 0, 0), finVec (3, 3, 3)), finVec (3/2, 3/2, 3/2))"
  by (simp add: specExtent_def maxLengthScale_def minCorner_def maxCorner_def
      structA_def structB_def center_AB Let_def)

lemma norm_unit_box:
  "norm3 (vsub (finVec (1, 1, 1)) (finVec (- 1, - 1, - 1))) = dround (sqrt 12)"
  by (simp add: norm3_def vsub_def dsub_def finVec_def dround_2 dround_4 dround_8 dround_12)

lemma center_unit_box:
  "sscale (Fin (1/2)) (vadd (finVec (- 1, - 1, - 1)) (finVec (1, 1, 1))) = finVec (0, 0, 0)"
  by (simp add: sscale_def vadd_def finVec_def dround_zero)

lemma specExtent_Nil:
  "specExtent [] = (dround (sqrt 12), (finVec (- 1, - 1, - 1), finVec (1, 1, 1)), finVec (0, 0, 0))"
  by (simp add: specExtent_def norm_unit_box center_unit_box Let_def)

theorem updateStructureExtents_spec_witness:
  "map (heap sAB) (allStructures sAB) = map Some [structA, structB]
   \<and> finiteStructure structA \<and> finiteStructure structB
   \<and> updateStructureExtents sAB =
       sAB\<lparr>lengthScale := Fin 5,
           boundingBox := (finVec (0, 0, 0), finVec (3, 3, 3)),
           center := finVec (3/2, 3/2, 3/2)\<rparr>
   \<and> map (heap initialState) (allStructures initialState) = map Some []
   \<and> updateStructureExtents initialState =
       initialState\<lparr>lengthScale := dround (sqrt 12),
           boundingBox := (finVec (- 1, - 1, - 1), finVec (1, 1, 1)),
           center := finVec (0, 0, 0)\<rparr>
   \<and> extentLoop (heap initialState) (allStructures initialState) initialExtent = Some initialExtent
   \<and> \<not> isFinite (fst (snd initialExtent))
   \<and> boundingBox (updateStructureExtents initialState) = (finVec (- 1, - 1, - 1), finVec (1, 1, 1))
   \<and> exactDouble 3 \<and> exactDouble (3 / 2)
   \<and> sscale (Fin (1/2)) (vadd (finVec (0, 0, 0)) (finVec (3, 3, 3))) = finVec (midpoint3 (0, 0, 0) (3, 3, 3))
   \<and> sboundingBox structA = (finVec (0, 0, 0), finVec (1, 1, 1))
   \<and> sboundingBox structB = (finVec (2, 2, 2), finVec (3, 3, 3))
   \<and> boundingBox (updateStructureExtents sAB) = (finVec (0, 0, 0), finVec (3, 3, 3))
   \<and> center (updateStructureExtents sAB) = finVec (3/2, 3/2, 3/2)"
proof -
  have h1: "map (heap sAB) (allStructures sAB) = map Some [structA, structB]"
    by (simp add: sAB_fields)
  have h1': "map (heap sAB) (allStructures sAB) = [Some structA, Some structB]"
    by (simp add: sAB_fields)
  have h2: "finiteStructure structA" "finiteStructure structB"
    by (simp_all add: finiteStructure_def structA_def structB_def isFinite_def)
  then have h2': "\<forall>x \<in> set [structA, structB]. finiteStructure x" by simp
  have h3: "map (heap initialState) (allStructures initialState) = map Some []"
    by (simp add: allStructures_def initialState_def)
  have h4: "extentLoop (heap initialState) (allStructures initialState) initialExtent = Some initialExtent"
    by (simp add: allStructures_def initialState_def)
  have h4': "extentLoop (heap initialState) (allStructures initialState) initialExtent
               = Some (Fin 0, vscale ones PosInf, vscale (vneg ones) PosInf)"
    by (simp add: allStructures_def initialState_def initialExtent_def)
  have h5: "\<not> isFinite (fst (snd initialExtent))"
    by (simp add: initialExtent_def isFinite_def vscale_def ones_def inf_times_def)
  then have h5': "\<not> isFinite (vscale ones PosInf)" by (simp add: initialExtent_def)
  have h6: "sboundingBox structA = (finVec (0, 0, 0), finVec (1, 1, 1))"
    "sboundingBox structB = (finVec (2, 2, 2), finVec (3, 3, 3))"
    by (simp_all add: structA_def structB_def finVec_def)
  have h7: "exactDouble 3" "exactDouble (3 / 2)"
    by (simp_all add: exactDouble_def dround_3 dround_3_2)
  then have h7': "exactDouble (0 + 3) \<and> exactDouble ((0 + 3) / 2)
        \<and> exactDouble (0 + 3) \<and> exactDouble ((0 + 3) / 2)
        \<and> exactDouble (0 + 3) \<and> exactDouble ((0 + 3) / 2)"
    by simp
  have a: "updateStructureExtents sAB =
       sAB\<lparr>lengthScale := Fin 5,
           boundingBox := (finVec (0, 0, 0), finVec (3, 3, 3)),
           center := finVec (3/2, 3/2, 3/2)\<rparr>"
    using updateStructureExtents_spec [of sAB "[structA, structB]"] h1 h2'
    by (simp add: specExtent_AB)
  have b: "updateStructureExtents initialState =
       initialState\<lparr>lengthScale := dround (sqrt 12),
           boundingBox := (finVec (- 1, - 1, - 1), finVec (1, 1, 1)),
           center := finVec (0, 0, 0)\<rparr>"
    using updateStructureExtents_spec [of initialState "[]"] h3
    by (simp add: specExtent_Nil)
  have c: "boundingBox (updateStructureExtents initialState) = (finVec (- 1, - 1, - 1), finVec (1, 1, 1))"
    using updateStructureExtents_spec [of _ _ initialState "Fin 0" "vscale ones PosInf" "vscale (vneg ones) PosInf"]
      h4' h5' by blast
  have e: "sscale (Fin (1/2)) (vadd (finVec (0, 0, 0)) (finVec (3, 3, 3))) = finVec (midpoint3 (0, 0, 0) (3, 3, 3))"
    by (rule mp [OF updateStructureExtents_spec [where ?l1.0 = 0 and ?h1.0 = 3 and ?l2.0 = 0
              and ?h2.0 = 3 and ?l3.0 = 0 and ?h3.0 = 3,
              THEN conjunct2, THEN conjunct2, THEN conjunct1]])
      (rule h7')
  have d: "boundingBox (updateStructureExtents sAB) = (finVec (0, 0, 0), finVec (3, 3, 3))
      \<and> center (updateStructureExtents sAB) = finVec (3/2, 3/2, 3/2)"
    by (rule mp [OF updateStructureExtents_spec [where u = sAB and a = structA and b = structB,
              THEN conjunct2, THEN conjunct2, THEN conjunct2]])
      (simp only: h1' h6 simp_thms)
  from h1 h2 h3 h4 h5 h6 h7 a b c d e show ?thesis by blast
qed

text \<open>
  The claim as stated fails where double arithmetic overflows. For a structure whose
  box is [2^1023,0,0]-[2^1023,1,1], all finite doubles, the midpoint of the corners has
  the x coordinate 2^1023, but the sum of the corners overflows and the center stored has
  the x coordinate plus infinity. For a structure whose box is [0,0,0]-[2^1023,0,0]
  and whose length scale is 0, the Euclidean norm of the diagonal is 2^1023, but its
  square overflows and the length scale stored is plus infinity.
\<close>

theorem extent_overflows_for_huge_boxes:
  "exactDouble huge
   \<and> boundingBox sBig = (finVec (huge, 0, 0), finVec (huge, 1, 1))
   \<and> midpoint3 (huge, 0, 0) (huge, 1, 1) = (huge, 1 / 2, 1 / 2)
   \<and> vx (center sBig) = PosInf
   \<and> boundingBox sWide = (finVec (0, 0, 0), finVec (huge, 0, 0))
   \<and> sqrt ((huge - 0) * (huge - 0) + (0 - 0) * (0 - 0) + (0 - 0) * (0 - 0)) = huge
   \<and> lengthScale sWide = PosInf"
proof -
  have a: "exactDouble huge" by (simp add: exactDouble_def dround_huge)
  have b: "boundingBox sBig = (finVec (huge, 0, 0), finVec (huge, 1, 1))" "vx (center sBig) = PosInf"
    by (simp_all add: finVec_def sBig_def payloadBig_def dround_huge_twice eval_defs)
  have c: "midpoint3 (huge, 0, 0) (huge, 1, 1) = (huge, 1 / 2, 1 / 2)"
    by (simp add: midpoint3_def)
  have d: "boundingBox sWide = (finVec (0, 0, 0), finVec (huge, 0, 0))" "lengthScale sWide = PosInf"
    using huge_pos
    by (simp_all add: finVec_def sWide_def payloadWide_def dround_huge dround_huge_square
        dround_zero eval_defs)
  have e: "sqrt ((huge - 0) * (huge - 0) + (0 - 0) * (0 - 0) + (0 - 0) * (0 - 0)) = huge"
    using huge_pos by simp
  from a b c d e show ?thesis by simp
qed

end
